theory Spec2Isabelle
  imports Complex_Main "HOL-Library.Word"
begin

unbundle bit_operations_syntax

section \<open>Shared data: vectors, vertices, chunks\<close>

text \<open>
  \<open>FVector\<close> carries three floating-point components. They are modelled as reals: every
  value stored below is an integer converted to floating point, or the rounded product of
  a noise value with 100. \<open>FChunk\<close> has the fields the sources read and write: \<open>Chunk.Id\<close>,
  \<open>Chunk.Coords\<close> (the origin, in vertex units), \<open>Chunk.Size\<close> and \<open>Chunk.VertexArray\<close>.
\<close>

datatype FVector = FVector real real real

datatype FVertices = FVertices FVector

record FChunk =
  ChunkId :: int
  Coords :: "int \<times> int"
  Size :: int
  VertexArray :: "FVertices list"

record FPerlinParameters =
  Octaves :: int
  Persistence :: real
  Frequency :: real
  Seed :: int

section \<open>Arithmetic in \<open>int32\<close>\<close>

text \<open>
  The \<open>int\<close> and \<open>int32\<close> arithmetic of the chunk worker, of the mesh builder's index
  helper and of the manager's tick is written out with the wrap-around of 32-bit two's
  complement: \<open>int32 k\<close> is the \<open>int32\<close> value that \<open>k\<close> wraps to, and \<open>in32 k\<close> says
  that \<open>k\<close> is such a value already. \<open>abs32\<close> is \<open>FMath::Abs\<close> on \<open>int32\<close>, which
  leaves the least value as it is.

  \<open>double_to_int32\<close> converts a floating-point number that holds an integer to
  \<open>int32\<close>. Inside the range it is the number itself. Outside, C++ leaves the result
  open; the conversion instruction of x86 gives the least \<open>int32\<close>, and so does the
  model.
\<close>

definition int32 :: "int \<Rightarrow> int" where
  "int32 k = (k + 2 ^ 31) mod 2 ^ 32 - 2 ^ 31"

definition in32 :: "int \<Rightarrow> bool" where
  "in32 k \<longleftrightarrow> - (2 ^ 31) \<le> k \<and> k < 2 ^ 31"

definition add32 :: "int \<Rightarrow> int \<Rightarrow> int" where
  "add32 a b = int32 (a + b)"

definition sub32 :: "int \<Rightarrow> int \<Rightarrow> int" where
  "sub32 a b = int32 (a - b)"

definition mul32 :: "int \<Rightarrow> int \<Rightarrow> int" where
  "mul32 a b = int32 (a * b)"

definition abs32 :: "int \<Rightarrow> int" where
  "abs32 a = int32 \<bar>a\<bar>"

definition double_to_int32 :: "int \<Rightarrow> int" where
  "double_to_int32 v = (if in32 v then v else - (2 ^ 31))"

text \<open>
  Floating-point numbers are modelled as the reals they stand for. An operation of
  floating-point arithmetic gives the exact result rounded to the precision of its type;
  the rounding is a parameter of every function below that computes in floating point:
  \<open>to_float\<close> takes a real to the single-precision number it rounds to, \<open>to_double\<close>
  to the double-precision one. Nothing is assumed of them. \<open>exact\<close> is the rounding of
  the examples, in which every result is a floating-point number as it is.
\<close>

definition exact :: "real \<Rightarrow> real" where
  "exact r = r"

section \<open>The chunk worker (ChunkThread.cpp)\<close>

record FChunkThread =
  Chunk :: FChunk
  Parameters :: FPerlinParameters
  bShutdown :: bool
  bisOver :: bool

text \<open>\<open>FChunkThread::Init\<close> logs and returns true.\<close>

definition Init :: "FChunkThread \<Rightarrow> bool" where
  "Init t = True"

text \<open>\<open>FChunkThread::Stop\<close> sets the shutdown flag and does nothing else.\<close>

definition Stop :: "FChunkThread \<Rightarrow> FChunkThread" where
  "Stop t = t\<lparr>bShutdown := True\<rparr>"

text \<open>
  The state of \<open>FChunkThread::Run\<close> while it loops: the worker object (whose
  \<open>bShutdown\<close> another thread may set through \<open>Stop\<close>), the count that line 21 asks
  \<open>Reserve\<close> for, the local buffer \<open>TempVertices\<close>, the counter
  \<open>processedVertices\<close>, and the number of \<open>FPlatformProcess::Sleep\<close> calls made so
  far, one at the end of each batch of \<open>BatchSize\<close> samples.
\<close>

record run_state =
  worker :: FChunkThread
  reserved :: int
  TempVertices :: "FVertices list"
  processedVertices :: int
  sleeps :: nat

definition BatchSize :: int where
  "BatchSize = 30"

text \<open>
  \<open>UPerlinNoise::GenerateOctavePerlinValue\<close> is not part of the sources at hand; it is
  the parameter \<open>noise\<close>, called with the grid point and the four generation
  parameters. Its value times 100 is a floating-point product, rounded by \<open>to_float\<close>
  (to the precision of the noise value's type). The parameter \<open>stops\<close> is the other
  thread: \<open>stops k\<close> holds when \<open>Stop\<close> is called while the sample after the first
  \<open>k\<close> is being computed.

  The loop body (lines 25 to 32): build the vertex, add it to the buffer, count it, and
  sleep when the count is a multiple of the batch size (the remainder of C++ is zero
  exactly when \<open>mod\<close> is). The body never reads \<open>bShutdown\<close>.
\<close>

type_synonym noise_fn = "int \<Rightarrow> int \<Rightarrow> int \<Rightarrow> real \<Rightarrow> real \<Rightarrow> int \<Rightarrow> real"

definition sample :: "(real \<Rightarrow> real) \<Rightarrow> noise_fn \<Rightarrow> FPerlinParameters \<Rightarrow> int \<Rightarrow> int \<Rightarrow> int \<Rightarrow> int \<Rightarrow> FVertices" where
  "sample to_float noise p x y x_scaled y_scaled =
     FVertices (FVector (of_int x_scaled) (of_int y_scaled)
       (to_float (noise x y (Octaves p) (Persistence p) (Frequency p) (Seed p) * 100)))"

definition loop_body :: "(real \<Rightarrow> real) \<Rightarrow> noise_fn \<Rightarrow> (int \<Rightarrow> bool) \<Rightarrow> int \<Rightarrow> int \<Rightarrow> int \<Rightarrow> int \<Rightarrow> run_state \<Rightarrow> run_state" where
  "loop_body to_float noise stops x y x_scaled y_scaled st =
     (let w = (if stops (processedVertices st) then Stop (worker st) else worker st);
          vertex = sample to_float noise (Parameters w) x y x_scaled y_scaled;
          n = add32 (processedVertices st) 1
      in st\<lparr>worker := w,
            TempVertices := TempVertices st @ [vertex],
            processedVertices := n,
            sleeps := (if n mod BatchSize = 0 then Suc (sleeps st) else sleeps st)\<rparr>)"

text \<open>
  The inner loop, line 24: \<open>for (x, x_scaled; x < _x + _size; x++, x_scaled += 100)\<close>.
  \<open>x\<close> and the bound are \<open>int\<close> variables; the comparison reads them as the
  \<open>int32\<close> values they hold, and both increments wrap.
\<close>

function loop_x :: "(real \<Rightarrow> real) \<Rightarrow> noise_fn \<Rightarrow> (int \<Rightarrow> bool) \<Rightarrow> int \<Rightarrow> int \<Rightarrow> int \<Rightarrow> int \<Rightarrow> int \<Rightarrow> run_state \<Rightarrow> run_state" where
  "loop_x to_float noise stops y y_scaled hi x x_scaled st =
     (if int32 x < int32 hi
      then loop_x to_float noise stops y y_scaled hi (add32 x 1) (add32 x_scaled 100)
             (loop_body to_float noise stops x y x_scaled y_scaled st)
      else st)"
  by pat_completeness auto
termination
proof (relation "measure (\<lambda>(to_float, noise, stops, y, y_scaled, hi, x, x_scaled, st). nat (int32 hi - int32 x))",
    goal_cases)
  case 1
  show ?case by simp
next
  case (2 to_float noise stops y y_scaled hi x x_scaled st)
  define a where "a = (x + 2 ^ 31) mod 2 ^ 32"
  have b: "0 \<le> a" "(hi + 2 ^ 31) mod 2 ^ 32 < 2 ^ 32"
    by (simp_all add: a_def)
  have lt: "a < (hi + 2 ^ 31) mod 2 ^ 32"
    using 2 by (simp add: int32_def a_def)
  have "(a + 1) mod 2 ^ 32 = (x + 2 ^ 31 + 1) mod 2 ^ 32"
    unfolding a_def by (rule mod_add_left_eq)
  then have "(x + 1 + 2 ^ 31) mod 2 ^ 32 = (a + 1) mod 2 ^ 32"
    by simp
  also have "\<dots> = a + 1"
    using b lt by simp
  finally have e: "(x + 1 + 2 ^ 31) mod 2 ^ 32 = a + 1" .
  have s: "add32 x 1 = a + 1 - 2 ^ 31"
    unfolding add32_def int32_def e by simp
  have "int32 (add32 x 1) = (a + 1) mod 2 ^ 32 - 2 ^ 31"
    unfolding s int32_def by (simp add: add.commute)
  also have "\<dots> = a + 1 - 2 ^ 31"
    using b lt by simp
  finally have "int32 (add32 x 1) = int32 x + 1"
    by (simp add: int32_def a_def)
  then show ?case
    using 2 by simp
qed

text \<open>
  The outer loop, line 23; each round runs the inner loop from \<open>_x\<close> and \<open>_x * 100\<close>.
\<close>

function loop_y :: "(real \<Rightarrow> real) \<Rightarrow> noise_fn \<Rightarrow> (int \<Rightarrow> bool) \<Rightarrow> int \<Rightarrow> int \<Rightarrow> int \<Rightarrow> int \<Rightarrow> int \<Rightarrow> run_state \<Rightarrow> run_state" where
  "loop_y to_float noise stops x0 xhi yhi y y_scaled st =
     (if int32 y < int32 yhi
      then loop_y to_float noise stops x0 xhi yhi (add32 y 1) (add32 y_scaled 100)
             (loop_x to_float noise stops y y_scaled xhi x0 (mul32 x0 100) st)
      else st)"
  by pat_completeness auto
termination
proof (relation "measure (\<lambda>(to_float, noise, stops, x0, xhi, yhi, y, y_scaled, st). nat (int32 yhi - int32 y))",
    goal_cases)
  case 1
  show ?case by simp
next
  case (2 to_float noise stops x0 xhi yhi y y_scaled st)
  define a where "a = (y + 2 ^ 31) mod 2 ^ 32"
  have b: "0 \<le> a" "(yhi + 2 ^ 31) mod 2 ^ 32 < 2 ^ 32"
    by (simp_all add: a_def)
  have lt: "a < (yhi + 2 ^ 31) mod 2 ^ 32"
    using 2 by (simp add: int32_def a_def)
  have "(a + 1) mod 2 ^ 32 = (y + 2 ^ 31 + 1) mod 2 ^ 32"
    unfolding a_def by (rule mod_add_left_eq)
  then have "(y + 1 + 2 ^ 31) mod 2 ^ 32 = (a + 1) mod 2 ^ 32"
    by simp
  also have "\<dots> = a + 1"
    using b lt by simp
  finally have e: "(y + 1 + 2 ^ 31) mod 2 ^ 32 = a + 1" .
  have s: "add32 y 1 = a + 1 - 2 ^ 31"
    unfolding add32_def int32_def e by simp
  have "int32 (add32 y 1) = (a + 1) mod 2 ^ 32 - 2 ^ 31"
    unfolding s int32_def by (simp add: add.commute)
  also have "\<dots> = a + 1 - 2 ^ 31"
    using b lt by simp
  finally have "int32 (add32 y 1) = int32 y + 1"
    by (simp add: int32_def a_def)
  then show ?case
    using 2 by simp
qed

declare loop_x.simps [simp del] loop_y.simps [simp del]

text \<open>
  \<open>Run_loops\<close> is lines 15 to 34 of \<open>Run\<close>: the locals are set up (the origin is
  converted from floating point, \<open>_size * _size\<close> is what \<open>Reserve\<close> is asked for)
  and the two loops run. \<open>Run\<close> then appends the buffer to the chunk's vertex array
  (lines 36 to 39).
\<close>

definition Run_loops :: "(real \<Rightarrow> real) \<Rightarrow> noise_fn \<Rightarrow> (int \<Rightarrow> bool) \<Rightarrow> FChunkThread \<Rightarrow> run_state" where
  "Run_loops to_float noise stops t =
     (let size = Size (Chunk t);
          x0 = double_to_int32 (fst (Coords (Chunk t)));
          y0 = double_to_int32 (snd (Coords (Chunk t)))
      in loop_y to_float noise stops x0 (add32 x0 size) (add32 y0 size) y0 (mul32 y0 100)
           \<lparr>worker = t, reserved = mul32 size size, TempVertices = [],
            processedVertices = 0, sleeps = 0\<rparr>)"

definition Run :: "(real \<Rightarrow> real) \<Rightarrow> noise_fn \<Rightarrow> (int \<Rightarrow> bool) \<Rightarrow> FChunkThread \<Rightarrow> FChunkThread" where
  "Run to_float noise stops t =
     (let st = Run_loops to_float noise stops t; w = worker st
      in w\<lparr>Chunk := (Chunk w)\<lparr>VertexArray := VertexArray (Chunk w) @ TempVertices st\<rparr>\<rparr>)"

text \<open>
  What a worker does to the outside. \<open>Run\<close> appends a buffer to the chunk. \<open>Exit\<close>
  (lines 44 to 50) only hands a task to the game thread; \<open>Exit_task\<close> is that task,
  which the game thread runs later: it sets \<open>bisOver\<close> and broadcasts \<open>OnCalcOver\<close>
  with the chunk id and the chunk.
\<close>

datatype worker_event =
  VertexArrayAppend "FVertices list"
| AsyncTaskGameThread
| OnCalcOverBroadcast int FChunk

definition Exit :: "FChunkThread \<Rightarrow> worker_event list" where
  "Exit t = [AsyncTaskGameThread]"

definition Exit_task :: "FChunkThread \<Rightarrow> FChunkThread \<times> worker_event list" where
  "Exit_task t = (t\<lparr>bisOver := True\<rparr>, [OnCalcOverBroadcast (ChunkId (Chunk t)) (Chunk t)])"

text \<open>
  The engine runs a runnable as \<open>Init\<close>, then \<open>Run\<close> if \<open>Init\<close> returned true, then
  \<open>Exit\<close>. \<open>thread_body\<close> is that sequence, with the events in the order they happen.
\<close>

definition thread_body :: "(real \<Rightarrow> real) \<Rightarrow> noise_fn \<Rightarrow> (int \<Rightarrow> bool) \<Rightarrow> FChunkThread \<Rightarrow> FChunkThread \<times> worker_event list" where
  "thread_body to_float noise stops t =
     (if Init t
      then (let st = Run_loops to_float noise stops t; t' = Run to_float noise stops t
            in (t', VertexArrayAppend (TempVertices st) # Exit t'))
      else (t, []))"

section \<open>The mesh builder's index helper (ProceduralMeshGeneratorSubsystem.h)\<close>

text \<open>\<open>GetSquareIndices\<close> computes its four sums and products in \<open>int32\<close>.\<close>

record FSquareIndices =
  bottomLeft :: int
  bottomRight :: int
  topLeft :: int
  topRight :: int

definition GetSquareIndices :: "int \<Rightarrow> int \<Rightarrow> int \<Rightarrow> FSquareIndices" where
  "GetSquareIndices x y gridSize =
     \<lparr>bottomLeft = add32 x (mul32 y gridSize),
      bottomRight = add32 (add32 x 1) (mul32 y gridSize),
      topLeft = add32 x (mul32 (add32 y 1) gridSize),
      topRight = add32 (add32 x 1) (mul32 (add32 y 1) gridSize)\<rparr>"

section \<open>Chunk identifiers\<close>

text \<open>
  Modelled from the spec: \<open>ChunkData::GetChunkIdFromCoordinates\<close> and its inverse.
  The sources at hand only call the function (with two \<open>int32\<close> coordinates, for an
  \<open>int64\<close> id). The specification asks for a pairing of the two signed 32-bit
  coordinates into a single integer that is free of collisions and can be inverted, and
  names shift-and-pack as a way to do it: the first coordinate goes to the upper 32 bits
  of the 64-bit id, the second to the lower 32 bits.
\<close>

definition encode :: "32 word \<times> 32 word \<Rightarrow> 64 word" where
  "encode c = push_bit 32 (ucast (fst c)) OR ucast (snd c)"

definition decode :: "64 word \<Rightarrow> 32 word \<times> 32 word" where
  "decode i = (ucast (drop_bit 32 i), ucast i)"

section \<open>The chunk manager (ChunkManagerWorldSubsystem.cpp)\<close>

text \<open>
  What the manager reads of the terrain generator: the membership test \<open>HasChunk\<close> and
  the map \<open>ChunkMap\<close> from ids to chunks, iterated in some order (an association
  list). The generator's class is not part of the sources at hand, so both are taken as
  they are found when a tick starts. A null \<open>TerrainGenerator\<close> pointer is \<open>None\<close>.
\<close>

record UTerrainGeneratorWorldSubsystem =
  HasChunk :: "int \<Rightarrow> bool"
  ChunkMap :: "(int \<times> FChunk) list"

text \<open>
  What the manager does to the outside, in the order it happens: calls into the terrain
  generator (\<open>GenerateChunk X Y Size\<close>; the two parameter objects it also passes are
  fixed fields of the manager and left out), the progress broadcast, and the two log
  lines of the stress test with the values they print.
\<close>

datatype call =
  GenerateChunk int int int
| DestroyChunk int
| DisplayChunk int
| OnLoadingProgressUpdate int int
| LogTotalTime real
| LogAverageTimePerChunk "real option"

text \<open>The way a tick can fail: line 83 dereferences \<open>TerrainGenerator\<close> unchecked.\<close>

datatype failure = NullDereference

text \<open>
  A component of \<open>PlayerPos\<close> is a floored floating-point number: an integer, or, when
  the division of lines 71 and 72 is by zero, an infinity or no number at all. The third
  component is always zero and left out. The queue of positions holds pairs of loop
  counters and is kept as pairs of integers. Times are reals.
\<close>

datatype fcoord = Finite int | PlusInfinity | MinusInfinity | NotANumber

record UChunkManagerWorldSubsystem =
  bInitialChunksGenerated :: bool
  PlayerPos :: "fcoord \<times> fcoord"
  ChunkSize :: int
  RenderDistance :: int
  ChunkGenerationQueue :: "(int \<times> int) list"
  ChunkDestructionQueue :: "int list"
  TimeSinceLastChunkOperation :: real
  ChunkOperationInterval :: real
  InitialChunksRemaining :: int
  PendingChunks :: int
  bStressTestInProgress :: bool
  StressTestStartTime :: real

text \<open>
  Modelled from the spec: \<open>ChunkData::GetInitialChunkCount\<close>, which the sources at hand
  only call. It is the number of chunks of the initial window, a square of side
  \<open>2R + 1\<close> chunks.
\<close>

definition GetInitialChunkCount :: "int \<Rightarrow> int" where
  "GetInitialChunkCount R = (2 * R + 1) * (2 * R + 1)"

definition RequestChunkGeneration ::
  "UTerrainGeneratorWorldSubsystem option \<Rightarrow> int \<Rightarrow> int \<Rightarrow> int \<Rightarrow> call list" where
  "RequestChunkGeneration gen X Y Sz =
     (case gen of None \<Rightarrow> [] | Some g \<Rightarrow> [GenerateChunk X Y Sz])"

definition RequestChunkDestruction ::
  "UTerrainGeneratorWorldSubsystem option \<Rightarrow> int \<Rightarrow> call list" where
  "RequestChunkDestruction gen i =
     (case gen of None \<Rightarrow> [] | Some g \<Rightarrow> [DestroyChunk i])"

subsection \<open>Tick, lines 66 to 110: the window around the player\<close>

text \<open>
  The player's chunk coordinate along one axis (lines 71 and 72): the location divided by
  the chunk's edge in world units, floored. The edge \<open>(ChunkSize - 1.0f) * 100\<close> is
  computed in single precision (the conversion of \<open>ChunkSize\<close>, the difference and
  the product each round), the quotient in double precision. The edge is zero when
  \<open>ChunkSize\<close> is 1; the division then gives an infinity with the sign of the
  location, or no number for the location 0.
\<close>

definition chunk_coordinate :: "(real \<Rightarrow> real) \<Rightarrow> (real \<Rightarrow> real) \<Rightarrow> int \<Rightarrow> real \<Rightarrow> fcoord" where
  "chunk_coordinate to_float to_double sz v =
     (let d = to_float (to_float (to_float (of_int sz) - 1) * 100)
      in if d = 0
         then (if 0 < v then PlusInfinity else if v < 0 then MinusInfinity else NotANumber)
         else Finite \<lfloor>to_double (v / d)\<rfloor>)"

text \<open>
  \<open>FVector::Equals\<close> on floored components: two integers are within its tolerance
  exactly when they are the same, and a component that is not finite is within tolerance
  of nothing. The arithmetic of lines 79 to 92 on such a component: adding an integer,
  converting to \<open>int\<close>, comparing a loop counter with it, and multiplying it by the
  chunk's edge before rounding to \<open>int32\<close>. The sums and products are taken exactly:
  double precision holds them exactly as long as they are in the range of \<open>int32\<close>,
  and outside that range the conversions and comparisons no longer tell them apart.
\<close>

fun coord_equals :: "fcoord \<Rightarrow> fcoord \<Rightarrow> bool" where
  "coord_equals (Finite a) (Finite b) = (a = b)"
| "coord_equals a b = False"

definition Equals :: "fcoord \<times> fcoord \<Rightarrow> fcoord \<times> fcoord \<Rightarrow> bool" where
  "Equals p q = (coord_equals (fst p) (fst q) \<and> coord_equals (snd p) (snd q))"

fun coord_plus :: "fcoord \<Rightarrow> int \<Rightarrow> fcoord" where
  "coord_plus (Finite p) r = Finite (p + r)"
| "coord_plus c r = c"

fun coord_to_int32 :: "fcoord \<Rightarrow> int" where
  "coord_to_int32 (Finite v) = double_to_int32 v"
| "coord_to_int32 c = - (2 ^ 31)"

fun int_le_coord :: "int \<Rightarrow> fcoord \<Rightarrow> bool" where
  "int_le_coord x (Finite b) = (x \<le> b)"
| "int_le_coord x PlusInfinity = True"
| "int_le_coord x c = False"

fun coord_times_to_int32 :: "fcoord \<Rightarrow> int \<Rightarrow> int" where
  "coord_times_to_int32 (Finite p) e = double_to_int32 (p * e)"
| "coord_times_to_int32 c e = - (2 ^ 31)"

text \<open>
  The inner loop of lines 81 to 87, with \<open>getId\<close> for
  \<open>ChunkData::GetChunkIdFromCoordinates\<close>. The counter is an \<open>int\<close> whose increment
  wraps, the bound a floating-point number: when the bound is not below the greatest
  \<open>int\<close> the loop does not end, and the function has no value (\<open>None\<close>). The
  products of line 83 are \<open>int32\<close> products. A null \<open>TerrainGenerator\<close> fails
  there.
\<close>

partial_function (option) queue_row ::
  "(int \<Rightarrow> int \<Rightarrow> int) \<Rightarrow> UTerrainGeneratorWorldSubsystem option \<Rightarrow> int \<Rightarrow> int \<Rightarrow> fcoord \<Rightarrow> int \<Rightarrow>
   (int \<times> int) list \<Rightarrow> (failure + (int \<times> int) list) option" where
  "queue_row getId gen sz y hi x q =
     (if int_le_coord x hi
      then (case gen of
              None \<Rightarrow> Some (Inl NullDereference)
            | Some g \<Rightarrow>
                queue_row getId gen sz y hi (add32 x 1)
                  (if \<not> HasChunk g (getId (mul32 x (sub32 sz 1)) (mul32 y (sub32 sz 1)))
                   then q @ [(x, y)] else q))
      else Some (Inr q))"

text \<open>The outer loop of lines 79 to 88.\<close>

partial_function (option) queue_window ::
  "(int \<Rightarrow> int \<Rightarrow> int) \<Rightarrow> UTerrainGeneratorWorldSubsystem option \<Rightarrow> int \<Rightarrow> int \<Rightarrow> fcoord \<Rightarrow> fcoord \<Rightarrow> int \<Rightarrow>
   (int \<times> int) list \<Rightarrow> (failure + (int \<times> int) list) option" where
  "queue_window getId gen sz xlo xhi yhi y q =
     (if int_le_coord y yhi
      then Option.bind (queue_row getId gen sz y xhi xlo q)
             (\<lambda>r. case r of
                     Inl f \<Rightarrow> Some (Inl f)
                   | Inr q' \<Rightarrow> queue_window getId gen sz xlo xhi yhi (add32 y 1) q')
      else Some (Inr q))"

text \<open>The loop over \<open>ChunkMap\<close> of lines 96 to 106, in \<open>int32\<close>.\<close>

fun queue_far :: "int \<Rightarrow> int \<Rightarrow> int \<Rightarrow> int \<Rightarrow> (int \<times> FChunk) list \<Rightarrow> int list \<Rightarrow> int list" where
  "queue_far playerQuadX playerQuadY R sz [] q = q"
| "queue_far playerQuadX playerQuadY R sz ((i, chunk) # m) q =
     (let chunkX = double_to_int32 (fst (Coords chunk));
          chunkY = double_to_int32 (snd (Coords chunk))
      in queue_far playerQuadX playerQuadY R sz m
           (if abs32 (sub32 chunkX playerQuadX) > mul32 R (sub32 sz 1) \<or>
               abs32 (sub32 chunkY playerQuadY) > mul32 R (sub32 sz 1)
            then q @ [i] else q))"

text \<open>
  Lines 66 to 110. \<open>pawn\<close> is the location of the first player controller's pawn, or
  \<open>None\<close> when there is no controller or no pawn.
\<close>

definition Tick_window ::
  "(real \<Rightarrow> real) \<Rightarrow> (real \<Rightarrow> real) \<Rightarrow> (int \<Rightarrow> int \<Rightarrow> int) \<Rightarrow> UTerrainGeneratorWorldSubsystem option \<Rightarrow> (real \<times> real) option \<Rightarrow>
   UChunkManagerWorldSubsystem \<Rightarrow> (failure + UChunkManagerWorldSubsystem) option" where
  "Tick_window to_float to_double getId gen pawn s =
     (case pawn of
        None \<Rightarrow> Some (Inr s)
      | Some loc \<Rightarrow>
          (let pos = (chunk_coordinate to_float to_double (ChunkSize s) (fst loc),
                      chunk_coordinate to_float to_double (ChunkSize s) (snd loc))
           in if Equals (PlayerPos s) pos then Some (Inr s)
              else
                (let R = RenderDistance s; sz = ChunkSize s
                 in Option.bind
                      (queue_window getId gen sz
                         (coord_to_int32 (coord_plus (fst pos) (- R))) (coord_plus (fst pos) R)
                         (coord_plus (snd pos) R) (coord_to_int32 (coord_plus (snd pos) (- R)))
                         (ChunkGenerationQueue s))
                      (\<lambda>r. case r of
                         Inl f \<Rightarrow> Some (Inl f)
                       | Inr q \<Rightarrow>
                           Some (Inr (s\<lparr>PlayerPos := pos,
                                ChunkGenerationQueue := q,
                                ChunkDestructionQueue :=
                                  (case gen of
                                     None \<Rightarrow> ChunkDestructionQueue s
                                   | Some g \<Rightarrow>
                                       queue_far (coord_times_to_int32 (fst pos) (sub32 sz 1))
                                         (coord_times_to_int32 (snd pos) (sub32 sz 1)) R sz
                                         (ChunkMap g) (ChunkDestructionQueue s))\<rparr>))))))"

subsection \<open>Tick, lines 112 to 136: draining the queues\<close>

text \<open>
  The sum of line 113 is a single-precision sum, rounded by \<open>to_float\<close>. The origin
  passed on in lines 123 to 127 is a floating-point product converted to \<open>int32\<close>; the
  product of two \<open>int32\<close> values is exact in double precision whenever it is in the
  range of the conversion.
\<close>

definition Tick_drain ::
  "(real \<Rightarrow> real) \<Rightarrow> UTerrainGeneratorWorldSubsystem option \<Rightarrow> real \<Rightarrow> UChunkManagerWorldSubsystem \<Rightarrow>
   UChunkManagerWorldSubsystem \<times> call list" where
  "Tick_drain to_float gen DeltaTime s =
     (let t = to_float (TimeSinceLastChunkOperation s + DeltaTime)
      in if t \<ge> ChunkOperationInterval s
         then
           (let s1 = s\<lparr>TimeSinceLastChunkOperation := 0\<rparr>;
                (s2, c1) =
                  (case ChunkGenerationQueue s1 of
                     [] \<Rightarrow> (s1, [])
                   | ChunkPos # rest \<Rightarrow>
                       (s1\<lparr>ChunkGenerationQueue := rest\<rparr>,
                        RequestChunkGeneration gen
                          (double_to_int32 (fst ChunkPos * sub32 (ChunkSize s1) 1))
                          (double_to_int32 (snd ChunkPos * sub32 (ChunkSize s1) 1)) (ChunkSize s1)));
                (s3, c2) =
                  (case ChunkDestructionQueue s2 of
                     [] \<Rightarrow> (s2, [])
                   | i # rest \<Rightarrow>
                       (s2\<lparr>ChunkDestructionQueue := rest\<rparr>, RequestChunkDestruction gen i))
            in (s3, c1 @ c2))
         else (s\<lparr>TimeSinceLastChunkOperation := t\<rparr>, []))"

text \<open>
  The whole tick: nothing before the initial chunks are there (lines 61 to 64), then the
  window, then the drain. The result is \<open>None\<close> when the tick does not return,
  \<open>Inl\<close> when it fails, and otherwise the new state with the calls made.
\<close>

definition Tick ::
  "(real \<Rightarrow> real) \<Rightarrow> (real \<Rightarrow> real) \<Rightarrow> (int \<Rightarrow> int \<Rightarrow> int) \<Rightarrow> UTerrainGeneratorWorldSubsystem option \<Rightarrow>
   (real \<times> real) option \<Rightarrow> real \<Rightarrow> UChunkManagerWorldSubsystem \<Rightarrow>
   (failure + UChunkManagerWorldSubsystem \<times> call list) option" where
  "Tick to_float to_double getId gen pawn DeltaTime s =
     (if \<not> bInitialChunksGenerated s then Some (Inr (s, []))
      else Option.bind (Tick_window to_float to_double getId gen pawn s)
             (\<lambda>r. case r of
                     Inl f \<Rightarrow> Some (Inl f)
                   | Inr s1 \<Rightarrow> Some (Inr (Tick_drain to_float gen DeltaTime s1))))"

subsection \<open>StressTest\<close>

text \<open>
  The request loops of \<open>StressTest\<close> and \<open>InitialChunkGeneration\<close> and the counters
  of \<open>OnChunkGenerated\<close> are over unbounded integers; they are used below at values
  far inside the range of \<open>int32\<close>.
\<close>

text \<open>The loop of lines 152 to 155.\<close>

function stress_requests :: "UTerrainGeneratorWorldSubsystem option \<Rightarrow> int \<Rightarrow> int \<Rightarrow> call list" where
  "stress_requests gen NumChunks i =
     (if i < NumChunks
      then RequestChunkGeneration gen (i * 31) 0 32 @ stress_requests gen NumChunks (i + 1)
      else [])"
  by pat_completeness auto
termination
  by (relation "measure (\<lambda>(gen, NumChunks, i). nat (NumChunks - i))") auto

declare stress_requests.simps [simp del]

text \<open>\<open>now\<close> is what \<open>FPlatformTime::Seconds\<close> returns when it is called.\<close>

definition StressTest ::
  "UTerrainGeneratorWorldSubsystem option \<Rightarrow> real \<Rightarrow> int \<Rightarrow> UChunkManagerWorldSubsystem \<Rightarrow>
   UChunkManagerWorldSubsystem \<times> call list" where
  "StressTest gen now NumChunks s =
     (s\<lparr>PendingChunks := NumChunks, bStressTestInProgress := True, StressTestStartTime := now\<rparr>,
      stress_requests gen NumChunks 0)"

subsection \<open>InitialChunkGeneration\<close>

text \<open>The loops of lines 170 to 181, which skip the centre.\<close>

function initial_row :: "UTerrainGeneratorWorldSubsystem option \<Rightarrow> int \<Rightarrow> int \<Rightarrow> int \<Rightarrow> int \<Rightarrow> call list" where
  "initial_row gen sz y hi x =
     (if x \<le> hi
      then (if x = 0 \<and> y = 0 then []
            else RequestChunkGeneration gen (x * (sz - 1)) (y * (sz - 1)) sz)
           @ initial_row gen sz y hi (x + 1)
      else [])"
  by pat_completeness auto
termination
  by (relation "measure (\<lambda>(gen, sz, y, hi, x). nat (hi + 1 - x))") auto

function initial_rows :: "UTerrainGeneratorWorldSubsystem option \<Rightarrow> int \<Rightarrow> int \<Rightarrow> int \<Rightarrow> int \<Rightarrow> int \<Rightarrow> call list" where
  "initial_rows gen sz xlo xhi yhi y =
     (if y \<le> yhi
      then initial_row gen sz y xhi xlo @ initial_rows gen sz xlo xhi yhi (y + 1)
      else [])"
  by pat_completeness auto
termination
  by (relation "measure (\<lambda>(gen, sz, xlo, xhi, yhi, y). nat (yhi + 1 - y))") auto

declare initial_row.simps [simp del] initial_rows.simps [simp del]

text \<open>
  The count comes from the argument \<open>InRenderDistance\<close>; the loops run over the field
  \<open>RenderDistance\<close>.
\<close>

definition InitialChunkGeneration ::
  "UTerrainGeneratorWorldSubsystem option \<Rightarrow> int \<Rightarrow> UChunkManagerWorldSubsystem \<Rightarrow>
   UChunkManagerWorldSubsystem \<times> call list" where
  "InitialChunkGeneration gen InRenderDistance s =
     (let R = RenderDistance s
      in (s\<lparr>InitialChunksRemaining := GetInitialChunkCount InRenderDistance\<rparr>,
          RequestChunkGeneration gen 0 0 (ChunkSize s)
          @ initial_rows gen (ChunkSize s) (- R) R R (- R)))"

subsection \<open>OnChunkGenerated\<close>

text \<open>
  The division of line 246 divides a \<open>double\<close> by an \<open>int32\<close>. By zero it yields an
  infinity or a NaN, which is no number: \<open>None\<close>.
\<close>

definition double_div :: "real \<Rightarrow> int \<Rightarrow> real option" where
  "double_div a b = (if b = 0 then None else Some (a / of_int b))"

text \<open>Lines 219 to 233, while the initial chunks are being generated.\<close>

definition initial_progress :: "UChunkManagerWorldSubsystem \<Rightarrow> UChunkManagerWorldSubsystem \<times> call list" where
  "initial_progress s =
     (if \<not> bInitialChunksGenerated s
      then
        (let s1 = s\<lparr>InitialChunksRemaining := InitialChunksRemaining s - 1\<rparr>;
             c = [OnLoadingProgressUpdate
                    (GetInitialChunkCount (RenderDistance s1) - InitialChunksRemaining s1)
                    (GetInitialChunkCount (RenderDistance s1))]
         in if InitialChunksRemaining s1 \<le> 0
            then (s1\<lparr>bInitialChunksGenerated := True\<rparr>, c)
            else (s1, c))
      else (s, []))"

text \<open>Lines 235 to 250, while a stress test is in progress.\<close>

definition stress_progress :: "real \<Rightarrow> UChunkManagerWorldSubsystem \<Rightarrow> UChunkManagerWorldSubsystem \<times> call list" where
  "stress_progress now s =
     (if bStressTestInProgress s
      then
        (let s1 = s\<lparr>PendingChunks := PendingChunks s - 1\<rparr>
         in if PendingChunks s1 \<le> 0
            then
              (let EndTime = now;
                   TotalTime = (EndTime - StressTestStartTime s1) * 1000
               in (s1\<lparr>bStressTestInProgress := False\<rparr>,
                   [LogTotalTime TotalTime,
                    LogAverageTimePerChunk (double_div TotalTime (PendingChunks s1))]))
            else (s1, []))
      else (s, []))"

definition OnChunkGenerated ::
  "UTerrainGeneratorWorldSubsystem option \<Rightarrow> real \<Rightarrow> int \<Rightarrow> UChunkManagerWorldSubsystem \<Rightarrow>
   UChunkManagerWorldSubsystem \<times> call list" where
  "OnChunkGenerated gen now ChunkId' s =
     (let (s1, c1) = initial_progress s;
          (s2, c2) = stress_progress now s1;
          c3 = (case gen of None \<Rightarrow> [] | Some g \<Rightarrow> [DisplayChunk ChunkId'])
      in (s2, c1 @ c2 @ c3))"

text \<open>
  A run of completion notifications, one call of \<open>OnChunkGenerated\<close> for each pair of a
  clock reading and a chunk id, with the calls they make in order.
\<close>

fun notifications ::
  "UTerrainGeneratorWorldSubsystem option \<Rightarrow> (real \<times> int) list \<Rightarrow> UChunkManagerWorldSubsystem \<Rightarrow>
   UChunkManagerWorldSubsystem \<times> call list" where
  "notifications gen [] s = (s, [])"
| "notifications gen ((now, i) # ns) s =
     (let (s1, c1) = OnChunkGenerated gen now i s;
          (s2, c2) = notifications gen ns s1
      in (s2, c1 @ c2))"

section \<open>Notions used in the statements\<close>

text \<open>
  One row of the grid of a chunk as the worker stores it: the samples at \<open>(x, y)\<close>
  for \<open>x\<close> from \<open>x0\<close> up to, not including, \<open>xhi\<close>, each at the position that
  the scaling by 100 in \<open>int\<close> gives.
\<close>

definition grid_row :: "(real \<Rightarrow> real) \<Rightarrow> noise_fn \<Rightarrow> FPerlinParameters \<Rightarrow> int \<Rightarrow> int \<Rightarrow> int \<Rightarrow> FVertices list" where
  "grid_row to_float noise p x0 xhi y =
     map (\<lambda>x. sample to_float noise p x y (int32 (x * 100)) (int32 (y * 100))) [x0..xhi - 1]"

text \<open>
  Between the batches of a run, the number of sleeps is the number of full batches among
  the vertices processed so far.
\<close>

definition batch_inv :: "run_state \<Rightarrow> bool" where
  "batch_inv st \<longleftrightarrow> 0 \<le> processedVertices st \<and> int (sleeps st) = processedVertices st div BatchSize"

text \<open>
  The worker of the specification's end-to-end example: origin \<open>(0, 0)\<close>, five vertices
  a side, one octave, persistence 0.5, frequency 0.1, seed 42. \<open>stopped_worker\<close> is a
  larger chunk, eight vertices a side, whose shutdown flag is already set when it runs.
  \<open>far_worker\<close> has a single vertex, at \<open>x = 21474837\<close>, and \<open>edge_worker\<close> a
  chunk of 32 vertices a side whose origin is two below the greatest \<open>int\<close>.
  \<open>flat_noise\<close> is a noise field that is zero everywhere, and \<open>never_stopped\<close> the
  other thread that never calls \<open>Stop\<close>.
\<close>

definition example_worker :: FChunkThread where
  "example_worker =
     \<lparr>Chunk = \<lparr>ChunkId = 0, Coords = (0, 0), Size = 5, VertexArray = []\<rparr>,
      Parameters = \<lparr>Octaves = 1, Persistence = 1 / 2, Frequency = 1 / 10, Seed = 42\<rparr>,
      bShutdown = False, bisOver = False\<rparr>"

definition stopped_worker :: FChunkThread where
  "stopped_worker =
     \<lparr>Chunk = \<lparr>ChunkId = 7, Coords = (0, 0), Size = 8, VertexArray = []\<rparr>,
      Parameters = \<lparr>Octaves = 1, Persistence = 1 / 2, Frequency = 1 / 10, Seed = 42\<rparr>,
      bShutdown = True, bisOver = False\<rparr>"

definition far_worker :: FChunkThread where
  "far_worker =
     \<lparr>Chunk = \<lparr>ChunkId = 1, Coords = (21474837, 0), Size = 1, VertexArray = []\<rparr>,
      Parameters = \<lparr>Octaves = 1, Persistence = 1 / 2, Frequency = 1 / 10, Seed = 42\<rparr>,
      bShutdown = False, bisOver = False\<rparr>"

definition edge_worker :: FChunkThread where
  "edge_worker =
     \<lparr>Chunk = \<lparr>ChunkId = 2, Coords = (2147483646, 0), Size = 32, VertexArray = []\<rparr>,
      Parameters = \<lparr>Octaves = 1, Persistence = 1 / 2, Frequency = 1 / 10, Seed = 42\<rparr>,
      bShutdown = False, bisOver = False\<rparr>"

definition flat_noise :: noise_fn where
  "flat_noise x y oc p f sd = 0"

definition never_stopped :: "int \<Rightarrow> bool" where
  "never_stopped k = False"

text \<open>
  The window of radius \<open>R\<close> around a chunk coordinate: the square of side \<open>2R + 1\<close>
  chunks centred on it, row by row.
\<close>

definition window_coords :: "int \<Rightarrow> int \<times> int \<Rightarrow> (int \<times> int) list" where
  "window_coords R pos =
     concat (map (\<lambda>y. map (\<lambda>x. (x, y)) [fst pos - R..fst pos + R]) [snd pos - R..snd pos + R])"

text \<open>
  The Chebyshev distance, in chunk units, between a chunk coordinate \<open>pos\<close> and a chunk
  whose origin \<open>c\<close> is given in vertex units: a chunk is \<open>sz - 1\<close> vertex units wide.
\<close>

definition chunk_distance :: "int \<Rightarrow> int \<times> int \<Rightarrow> int \<times> int \<Rightarrow> real" where
  "chunk_distance sz pos c =
     max \<bar>of_int (fst c) / (of_int sz - 1) - of_int (fst pos)\<bar>
         \<bar>of_int (snd c) / (of_int sz - 1) - of_int (snd pos)\<bar>"

text \<open>
  The two tests of the tick as it computes them: a window coordinate whose chunk id the
  generator does not have (line 83), and a map entry that is out of range (lines 98 to
  102).
\<close>

definition missing :: "(int \<Rightarrow> int \<Rightarrow> int) \<Rightarrow> UTerrainGeneratorWorldSubsystem \<Rightarrow> int \<Rightarrow> int \<times> int \<Rightarrow> bool" where
  "missing getId g sz c =
     (\<not> HasChunk g (getId (mul32 (fst c) (sub32 sz 1)) (mul32 (snd c) (sub32 sz 1))))"

definition far_away :: "int \<Rightarrow> int \<Rightarrow> int \<Rightarrow> int \<Rightarrow> int \<times> FChunk \<Rightarrow> bool" where
  "far_away pqx pqy R sz e =
     (abs32 (sub32 (double_to_int32 (fst (Coords (snd e)))) pqx) > mul32 R (sub32 sz 1) \<or>
      abs32 (sub32 (double_to_int32 (snd (Coords (snd e)))) pqy) > mul32 R (sub32 sz 1))"

text \<open>The progress broadcasts among a list of calls, in order, and the two kinds of request.\<close>

fun progress_reports :: "call list \<Rightarrow> (int \<times> int) list" where
  "progress_reports [] = []"
| "progress_reports (OnLoadingProgressUpdate a b # cs) = (a, b) # progress_reports cs"
| "progress_reports (c # cs) = progress_reports cs"



text \<open>
  An example: ids that pack the two coordinates into one integer, a generator that holds
  the three chunks at \<open>(-1, 0)\<close>, \<open>(0, 0)\<close> and \<open>(1, 0)\<close>, a manager in its steady
  phase with the player in chunk \<open>(0, 0)\<close>, render distance 1 and some work queued, and
  the same manager before its initial chunks are generated, with render distance 2 and
  empty queues.
\<close>

definition example_id :: "int \<Rightarrow> int \<Rightarrow> int" where
  "example_id x y = x * 4294967296 + y mod 4294967296"

definition chunk_at :: "int \<Rightarrow> int \<Rightarrow> int \<Rightarrow> int \<times> FChunk" where
  "chunk_at sz x y =
     (example_id (x * (sz - 1)) (y * (sz - 1)),
      \<lparr>ChunkId = example_id (x * (sz - 1)) (y * (sz - 1)),
       Coords = (x * (sz - 1), y * (sz - 1)), Size = sz, VertexArray = []\<rparr>)"

definition example_generator :: UTerrainGeneratorWorldSubsystem where
  "example_generator =
     \<lparr>HasChunk = (\<lambda>i. i \<in> set (map fst [chunk_at 32 (-1) 0, chunk_at 32 0 0, chunk_at 32 1 0])),
      ChunkMap = [chunk_at 32 (-1) 0, chunk_at 32 0 0, chunk_at 32 1 0]\<rparr>"

definition example_manager :: UChunkManagerWorldSubsystem where
  "example_manager =
     \<lparr>bInitialChunksGenerated = True, PlayerPos = (Finite 0, Finite 0), ChunkSize = 32,
      RenderDistance = 1,
      ChunkGenerationQueue = [(5, 5), (6, 5), (7, 5)], ChunkDestructionQueue = [11, 12],
      TimeSinceLastChunkOperation = 1 / 16, ChunkOperationInterval = 1 / 8,
      InitialChunksRemaining = 0, PendingChunks = 0, bStressTestInProgress = False,
      StressTestStartTime = 0\<rparr>"

definition starting_manager :: UChunkManagerWorldSubsystem where
  "starting_manager =
     example_manager\<lparr>bInitialChunksGenerated := False, RenderDistance := 2,
        ChunkGenerationQueue := [], ChunkDestructionQueue := []\<rparr>"

text \<open>
  The manager before its initial chunks are generated, with render distance 1, on which
  the initial generation is asked for with render distance 2.
\<close>

definition mismatched_manager :: UChunkManagerWorldSubsystem where
  "mismatched_manager = starting_manager\<lparr>RenderDistance := 1\<rparr>"

text \<open>
  A manager in its steady phase with render distance 1 and empty queues, and a generator
  whose only chunk has its origin at \<open>x = -2147483619\<close>, the \<open>int32\<close> value that
  \<open>69273667 * 31\<close> wraps to.
\<close>

definition wrapped_generator :: UTerrainGeneratorWorldSubsystem where
  "wrapped_generator =
     \<lparr>HasChunk = (\<lambda>i. i = example_id (- 2147483619) 0),
      ChunkMap = [(example_id (- 2147483619) 0,
                   \<lparr>ChunkId = example_id (- 2147483619) 0, Coords = (- 2147483619, 0),
                    Size = 32, VertexArray = []\<rparr>)]\<rparr>"

definition far_manager :: UChunkManagerWorldSubsystem where
  "far_manager =
     \<lparr>bInitialChunksGenerated = True, PlayerPos = (Finite 0, Finite 0), ChunkSize = 32,
      RenderDistance = 1,
      ChunkGenerationQueue = [], ChunkDestructionQueue = [],
      TimeSinceLastChunkOperation = 0, ChunkOperationInterval = 1 / 8,
      InitialChunksRemaining = 0, PendingChunks = 0, bStressTestInProgress = False,
      StressTestStartTime = 0\<rparr>"

section \<open>The chunk worker: what the loops compute\<close>

text \<open>Facts about wrapping.\<close>

lemma in32_int32: "in32 (int32 k)"
  by (simp add: int32_def in32_def)

lemma int32_eq: "in32 k \<Longrightarrow> int32 k = k"
  by (simp add: int32_def in32_def)

lemma int32_add_left: "int32 (int32 a + b) = int32 (a + b)"
proof -
  have "(int32 a + b + 2 ^ 31) mod 2 ^ 32 = ((a + 2 ^ 31) mod 2 ^ 32 + b) mod 2 ^ 32"
    by (simp add: int32_def)
  also have "\<dots> = (a + 2 ^ 31 + b) mod 2 ^ 32"
    by (rule mod_add_left_eq)
  also have "\<dots> = (a + b + 2 ^ 31) mod 2 ^ 32"
    by (simp add: algebra_simps)
  finally show ?thesis
    by (simp only: int32_def)
qed

lemma step_div30: "(p + 1) div 30 = (if (p + 1) mod 30 = 0 then p div 30 + 1 else p div (30::int))"
proof -
  define q where "q = p div 30"
  define r where "r = p mod 30"
  have p: "p = 30 * q + r" and r: "0 \<le> r" "r < 30"
    by (simp_all add: q_def r_def)
  show ?thesis
  proof (cases "r = 29")
    case True
    then have "p + 1 = 30 * (q + 1)" using p by simp
    then have "(p + 1) div 30 = q + 1" "(p + 1) mod 30 = 0" by simp_all
    then show ?thesis by (simp add: q_def)
  next
    case False
    then have lt: "r + 1 < 30" using r by simp
    have e: "p + 1 = 30 * q + (r + 1)" using p by simp
    have d: "(p + 1) div 30 = q"
      unfolding e using r lt by (simp add: div_pos_pos_trivial)
    have m: "(p + 1) mod 30 = r + 1"
      unfolding e using r lt by (simp add: mod_pos_pos_trivial)
    show ?thesis using d m r by (simp add: q_def)
  qed
qed

lemma loop_body_worker_fields:
  "Chunk (worker (loop_body to_float noise stops x y xs ys st)) = Chunk (worker st)"
  "Parameters (worker (loop_body to_float noise stops x y xs ys st)) = Parameters (worker st)"
  "bisOver (worker (loop_body to_float noise stops x y xs ys st)) = bisOver (worker st)"
  by (simp_all add: loop_body_def Let_def Stop_def)

lemma loop_body_locals:
  "TempVertices (loop_body to_float noise stops x y xs ys st) =
     TempVertices st @ [sample to_float noise (Parameters (worker st)) x y xs ys]"
  "processedVertices (loop_body to_float noise stops x y xs ys st) = add32 (processedVertices st) 1"
  by (simp_all add: loop_body_def Let_def Stop_def)

lemma loop_body_count:
  assumes "batch_inv st" and "processedVertices st + 1 < 2 ^ 31"
  shows "batch_inv (loop_body to_float noise stops x y xs ys st) \<and>
    processedVertices (loop_body to_float noise stops x y xs ys st) = processedVertices st + 1"
proof -
  have "in32 (processedVertices st + 1)"
    using assms by (simp add: batch_inv_def in32_def)
  then have a: "add32 (processedVertices st) 1 = processedVertices st + 1"
    by (simp add: add32_def int32_eq)
  show ?thesis
    using assms(1) unfolding batch_inv_def loop_body_def Let_def BatchSize_def a
    by (simp add: step_div30)
qed

lemma loop_x_step:
  "int32 x < int32 hi \<Longrightarrow> loop_x to_float noise stops y ys hi x xs st =
     loop_x to_float noise stops y ys hi (add32 x 1) (add32 xs 100) (loop_body to_float noise stops x y xs ys st)"
  by (subst loop_x.simps) simp

lemma loop_x_done:
  "\<not> int32 x < int32 hi \<Longrightarrow> loop_x to_float noise stops y ys hi x xs st = st"
  by (subst loop_x.simps) simp

lemma loop_x_worker_fields:
  "Chunk (worker (loop_x to_float noise stops y ys hi x xs st)) = Chunk (worker st) \<and>
   Parameters (worker (loop_x to_float noise stops y ys hi x xs st)) = Parameters (worker st) \<and>
   bisOver (worker (loop_x to_float noise stops y ys hi x xs st)) = bisOver (worker st)"
proof (induction to_float noise stops y ys hi x xs st rule: loop_x.induct)
  case (1 to_float noise stops y ys hi x xs st)
  show ?case
  proof (cases "int32 x < int32 hi")
    case True
    with 1 show ?thesis
      by (simp add: loop_x_step loop_body_worker_fields)
  next
    case False
    then show ?thesis by (simp add: loop_x_done)
  qed
qed

lemma scaled_step: "add32 (int32 (x * 100)) 100 = int32 ((x + 1) * 100)"
proof -
  have "add32 (int32 (x * 100)) 100 = int32 (x * 100 + 100)"
    unfolding add32_def by (rule int32_add_left)
  also have "x * 100 + 100 = (x + 1) * 100"
    by (simp add: algebra_simps)
  finally show ?thesis .
qed

lemma succ_in_range: "in32 x \<Longrightarrow> in32 hi \<Longrightarrow> x < hi \<Longrightarrow> add32 x 1 = x + 1 \<and> in32 (x + 1)"
  by (simp add: add32_def int32_def in32_def)

lemma loop_x_TempVertices:
  "in32 x \<Longrightarrow> in32 hi \<Longrightarrow> xs = int32 (x * 100) \<Longrightarrow>
   TempVertices (loop_x to_float noise stops y ys hi x xs st) =
     TempVertices st @ map (\<lambda>i. sample to_float noise (Parameters (worker st)) i y (int32 (i * 100)) ys) [x..hi - 1]"
proof (induction to_float noise stops y ys hi x xs st rule: loop_x.induct)
  case (1 to_float noise stops y ys hi x xs st)
  have ex: "int32 x = x" and eh: "int32 hi = hi"
    using 1(2,3) by (simp_all add: int32_eq)
  show ?case
  proof (cases "x < hi")
    case True
    then have c: "int32 x < int32 hi" by (simp add: ex eh)
    have u: "[x..hi - 1] = x # [x + 1..hi - 1]"
      using True by (simp add: upto_rec1)
    note s = succ_in_range[OF 1(2,3) True]
    have e: "add32 xs 100 = int32 (add32 x 1 * 100)"
      using 1(4) s by (simp add: scaled_step)
    have r: "in32 (add32 x 1)" using s by simp
    show ?thesis
      using 1(1)[OF c r 1(3) e] s
      by (simp add: loop_x_step[OF c] u loop_body_locals loop_body_worker_fields 1(4))
  next
    case False
    then show ?thesis by (simp add: loop_x_done ex eh)
  qed
qed

lemma loop_x_count:
  "in32 x \<Longrightarrow> in32 hi \<Longrightarrow> batch_inv st \<Longrightarrow> processedVertices st + max 0 (hi - x) < 2 ^ 31 \<Longrightarrow>
   batch_inv (loop_x to_float noise stops y ys hi x xs st) \<and>
   processedVertices (loop_x to_float noise stops y ys hi x xs st) = processedVertices st + max 0 (hi - x)"
proof (induction to_float noise stops y ys hi x xs st rule: loop_x.induct)
  case (1 to_float noise stops y ys hi x xs st)
  have ex: "int32 x = x" and eh: "int32 hi = hi"
    using 1(2,3) by (simp_all add: int32_eq)
  show ?case
  proof (cases "x < hi")
    case True
    then have c: "int32 x < int32 hi" by (simp add: ex eh)
    note s = succ_in_range[OF 1(2,3) True]
    have r: "in32 (add32 x 1)" using s by simp
    have b: "processedVertices st + 1 < 2 ^ 31" using 1(5) True by simp
    note lb = loop_body_count[OF 1(4) b, of to_float noise stops x y xs ys]
    have b': "processedVertices (loop_body to_float noise stops x y xs ys st) + max 0 (hi - add32 x 1) < 2 ^ 31"
      using lb 1(5) True s by simp
    show ?thesis
      using 1(1)[OF c r 1(3) lb[THEN conjunct1] b'] lb s True
      by (simp add: loop_x_step[OF c])
  next
    case False
    then show ?thesis using 1(4) by (simp add: loop_x_done ex eh)
  qed
qed

lemma loop_y_step:
  "int32 y < int32 yhi \<Longrightarrow> loop_y to_float noise stops x0 xhi yhi y ys st =
     loop_y to_float noise stops x0 xhi yhi (add32 y 1) (add32 ys 100)
       (loop_x to_float noise stops y ys xhi x0 (mul32 x0 100) st)"
  by (subst loop_y.simps) simp

lemma loop_y_done:
  "\<not> int32 y < int32 yhi \<Longrightarrow> loop_y to_float noise stops x0 xhi yhi y ys st = st"
  by (subst loop_y.simps) simp

lemma loop_y_worker_fields:
  "Chunk (worker (loop_y to_float noise stops x0 xhi yhi y ys st)) = Chunk (worker st) \<and>
   Parameters (worker (loop_y to_float noise stops x0 xhi yhi y ys st)) = Parameters (worker st) \<and>
   bisOver (worker (loop_y to_float noise stops x0 xhi yhi y ys st)) = bisOver (worker st)"
proof (induction to_float noise stops x0 xhi yhi y ys st rule: loop_y.induct)
  case (1 to_float noise stops x0 xhi yhi y ys st)
  show ?case
  proof (cases "int32 y < int32 yhi")
    case True
    with 1 show ?thesis
      by (simp add: loop_y_step loop_x_worker_fields)
  next
    case False
    then show ?thesis by (simp add: loop_y_done)
  qed
qed

lemma loop_y_empty_rows:
  "\<not> int32 x0 < int32 xhi \<Longrightarrow> loop_y to_float noise stops x0 xhi yhi y ys st = st"
proof (induction to_float noise stops x0 xhi yhi y ys st rule: loop_y.induct)
  case (1 to_float noise stops x0 xhi yhi y ys st)
  show ?case
  proof (cases "int32 y < int32 yhi")
    case True
    with 1 show ?thesis
      by (simp add: loop_y_step loop_x_done)
  next
    case False
    then show ?thesis by (simp add: loop_y_done)
  qed
qed

lemma loop_y_TempVertices:
  "in32 y \<Longrightarrow> in32 yhi \<Longrightarrow> in32 x0 \<Longrightarrow> in32 xhi \<Longrightarrow> ys = int32 (y * 100) \<Longrightarrow>
   TempVertices (loop_y to_float noise stops x0 xhi yhi y ys st) =
     TempVertices st @ concat (map (grid_row to_float noise (Parameters (worker st)) x0 xhi) [y..yhi - 1])"
proof (induction to_float noise stops x0 xhi yhi y ys st rule: loop_y.induct)
  case (1 to_float noise stops x0 xhi yhi y ys st)
  have ey: "int32 y = y" and eh: "int32 yhi = yhi"
    using 1(2,3) by (simp_all add: int32_eq)
  show ?case
  proof (cases "y < yhi")
    case True
    then have c: "int32 y < int32 yhi" by (simp add: ey eh)
    have u: "[y..yhi - 1] = y # [y + 1..yhi - 1]"
      using True by (simp add: upto_rec1)
    note s = succ_in_range[OF 1(2,3) True]
    have e: "add32 ys 100 = int32 (add32 y 1 * 100)"
      using 1(6) s by (simp add: scaled_step)
    have r: "in32 (add32 y 1)" using s by simp
    have row: "TempVertices (loop_x to_float noise stops y ys xhi x0 (mul32 x0 100) st) =
        TempVertices st @ grid_row to_float noise (Parameters (worker st)) x0 xhi y"
      using loop_x_TempVertices[OF 1(4,5), of "mul32 x0 100" to_float noise stops y ys st] 1(6)
      by (simp add: grid_row_def mul32_def)
    show ?thesis
      using 1(1)[OF c r 1(3,4,5) e] s
      by (simp add: loop_y_step[OF c] u row loop_x_worker_fields)
  next
    case False
    then show ?thesis by (simp add: loop_y_done ey eh)
  qed
qed

lemma loop_y_count:
  "in32 y \<Longrightarrow> in32 yhi \<Longrightarrow> in32 x0 \<Longrightarrow> in32 xhi \<Longrightarrow> batch_inv st \<Longrightarrow>
   processedVertices st + max 0 (yhi - y) * max 0 (xhi - x0) < 2 ^ 31 \<Longrightarrow>
   batch_inv (loop_y to_float noise stops x0 xhi yhi y ys st) \<and>
   processedVertices (loop_y to_float noise stops x0 xhi yhi y ys st) =
     processedVertices st + max 0 (yhi - y) * max 0 (xhi - x0)"
proof (induction to_float noise stops x0 xhi yhi y ys st rule: loop_y.induct)
  case (1 to_float noise stops x0 xhi yhi y ys st)
  have ey: "int32 y = y" and eh: "int32 yhi = yhi"
    using 1(2,3) by (simp_all add: int32_eq)
  show ?case
  proof (cases "y < yhi")
    case True
    then have c: "int32 y < int32 yhi" by (simp add: ey eh)
    note s = succ_in_range[OF 1(2,3) True]
    have r: "in32 (add32 y 1)" using s by simp
    define w where "w = max 0 (xhi - x0)"
    have w: "0 \<le> w" by (simp add: w_def)
    have split: "max 0 (yhi - y) * w = w + max 0 (yhi - (y + 1)) * w"
      using True by (simp add: algebra_simps max_def)
    have "0 \<le> max 0 (yhi - (y + 1)) * w" using w by simp
    then have b: "processedVertices st + w < 2 ^ 31"
      using 1(7) split unfolding w_def[symmetric] by linarith
    note lx = loop_x_count[OF 1(4,5,6) b[unfolded w_def], of to_float noise stops y ys "mul32 x0 100"]
    have b': "processedVertices (loop_x to_float noise stops y ys xhi x0 (mul32 x0 100) st)
        + max 0 (yhi - add32 y 1) * max 0 (xhi - x0) < 2 ^ 31"
      using lx 1(7) split s unfolding w_def[symmetric] by simp
    show ?thesis
      using 1(1)[OF c r 1(3,4,5) lx[THEN conjunct1] b'] lx s split
      unfolding w_def[symmetric] by (simp add: loop_y_step[OF c])
  next
    case False
    then show ?thesis using 1(6) by (simp add: loop_y_done ey eh)
  qed
qed

lemma length_grid_row: "length (grid_row to_float noise p x0 xhi y) = nat (xhi - x0)"
  by (simp add: grid_row_def)

lemma length_grid: "length (concat (map (grid_row to_float noise p x0 xhi) [y..yhi - 1])) = nat (yhi - y) * nat (xhi - x0)"
proof -
  have "map length (map (grid_row to_float noise p x0 xhi) [y..yhi - 1]) = replicate (nat (yhi - y)) (nat (xhi - x0))"
    by (simp add: map_replicate_const length_grid_row comp_def)
  then show ?thesis
    by (simp add: length_concat sum_list_replicate)
qed

lemma double_to_int32_eq: "in32 v \<Longrightarrow> double_to_int32 v = v"
  by (simp add: double_to_int32_def)

lemma Run_loops_TempVertices:
  assumes "in32 (fst (Coords (Chunk t)))" and "in32 (snd (Coords (Chunk t)))"
    and "in32 (fst (Coords (Chunk t)) + Size (Chunk t))"
    and "in32 (snd (Coords (Chunk t)) + Size (Chunk t))"
  shows "TempVertices (Run_loops to_float noise stops t) =
     concat (map (grid_row to_float noise (Parameters t) (fst (Coords (Chunk t)))
                    (fst (Coords (Chunk t)) + Size (Chunk t)))
               [snd (Coords (Chunk t))..snd (Coords (Chunk t)) + Size (Chunk t) - 1])"
  using assms
  by (simp add: Run_loops_def Let_def double_to_int32_eq add32_def int32_eq mul32_def
      loop_y_TempVertices)

lemma Run_loops_length:
  assumes "in32 (fst (Coords (Chunk t)))" and "in32 (snd (Coords (Chunk t)))"
    and "in32 (fst (Coords (Chunk t)) + Size (Chunk t))"
    and "in32 (snd (Coords (Chunk t)) + Size (Chunk t))"
  shows "length (TempVertices (Run_loops to_float noise stops t)) = nat (Size (Chunk t)) * nat (Size (Chunk t))"
  unfolding Run_loops_TempVertices[OF assms] by (simp add: length_grid)

lemma Run_loops_worker:
  "Chunk (worker (Run_loops to_float noise stops t)) = Chunk t \<and>
   Parameters (worker (Run_loops to_float noise stops t)) = Parameters t \<and>
   bisOver (worker (Run_loops to_float noise stops t)) = bisOver t"
  using loop_y_worker_fields by (simp add: Run_loops_def Let_def)

lemma square_bound:
  fixes s :: int
  assumes "0 \<le> s" and "s \<le> 46340"
  shows "s * s < 2 ^ 31"
proof -
  have "s * s \<le> 46340 * 46340"
    using assms by (intro mult_mono) simp_all
  then show ?thesis by simp
qed

lemma Run_loops_count:
  assumes "in32 (fst (Coords (Chunk t)))" and "in32 (snd (Coords (Chunk t)))"
    and "in32 (fst (Coords (Chunk t)) + Size (Chunk t))"
    and "in32 (snd (Coords (Chunk t)) + Size (Chunk t))"
    and "0 \<le> Size (Chunk t)" and "Size (Chunk t) \<le> 46340"
  shows "batch_inv (Run_loops to_float noise stops t) \<and>
    processedVertices (Run_loops to_float noise stops t) = Size (Chunk t) * Size (Chunk t)"
proof -
  define st0 where "st0 = \<lparr>worker = t, reserved = mul32 (Size (Chunk t)) (Size (Chunk t)),
      TempVertices = [], processedVertices = 0, sleeps = 0\<rparr>"
  have i: "batch_inv st0" by (simp add: st0_def batch_inv_def)
  have b: "processedVertices st0 +
      max 0 (snd (Coords (Chunk t)) + Size (Chunk t) - snd (Coords (Chunk t))) *
      max 0 (fst (Coords (Chunk t)) + Size (Chunk t) - fst (Coords (Chunk t))) < 2 ^ 31"
    using square_bound[OF assms(5,6)] assms(5) by (simp add: st0_def)
  note c = loop_y_count[OF assms(2,4,1,3) i b, of to_float noise stops "mul32 (snd (Coords (Chunk t))) 100"]
  show ?thesis
    using c assms
    by (simp add: Run_loops_def Let_def double_to_int32_eq add32_def int32_eq st0_def)
qed

lemma Run_Chunk:
  "Chunk (Run to_float noise stops t) =
     (Chunk t)\<lparr>VertexArray := VertexArray (Chunk t) @ TempVertices (Run_loops to_float noise stops t)\<rparr>"
  using Run_loops_worker[of to_float noise stops t] by (simp add: Run_def Let_def)

lemma grid_row_in_range:
  assumes "- 21474836 \<le> x0" and "xhi - 1 \<le> 21474836" and "- 21474836 \<le> y" and "y \<le> 21474836"
  shows "grid_row to_float noise p x0 xhi y =
     map (\<lambda>x. FVertices (FVector (of_int (x * 100)) (of_int (y * 100))
            (to_float (noise x y (Octaves p) (Persistence p) (Frequency p) (Seed p) * 100)))) [x0..xhi - 1]"
proof -
  have y: "int32 (y * 100) = y * 100"
    using assms by (intro int32_eq) (simp add: in32_def)
  have x: "\<And>x. x \<in> set [x0..xhi - 1] \<Longrightarrow> int32 (x * 100) = x * 100"
    using assms by (intro int32_eq) (simp add: in32_def)
  show ?thesis
    unfolding grid_row_def sample_def y
    by (rule map_cong) (simp_all add: x)
qed

lemma loop_x_reserved: "reserved (loop_x to_float noise stops y ys hi x xs st) = reserved st"
proof (induction to_float noise stops y ys hi x xs st rule: loop_x.induct)
  case (1 to_float noise stops y ys hi x xs st)
  show ?case
  proof (cases "int32 x < int32 hi")
    case True
    with 1 show ?thesis
      by (simp add: loop_x_step loop_body_def Let_def)
  next
    case False
    then show ?thesis by (simp add: loop_x_done)
  qed
qed

lemma loop_y_reserved: "reserved (loop_y to_float noise stops x0 xhi yhi y ys st) = reserved st"
proof (induction to_float noise stops x0 xhi yhi y ys st rule: loop_y.induct)
  case (1 to_float noise stops x0 xhi yhi y ys st)
  show ?case
  proof (cases "int32 y < int32 yhi")
    case True
    with 1 show ?thesis
      by (simp add: loop_y_step loop_x_reserved)
  next
    case False
    then show ?thesis by (simp add: loop_y_done)
  qed
qed

lemma Run_loops_reserved:
  assumes "0 \<le> Size (Chunk t)" and "Size (Chunk t) \<le> 46340"
  shows "reserved (Run_loops to_float noise stops t) = Size (Chunk t) * Size (Chunk t)"
proof -
  have p: "0 \<le> Size (Chunk t) * Size (Chunk t)"
    by simp
  have q: "Size (Chunk t) * Size (Chunk t) < 2 ^ 31"
    by (rule square_bound[OF assms])
  have "in32 (Size (Chunk t) * Size (Chunk t))"
    unfolding in32_def using p q by linarith
  then show ?thesis
    by (simp add: Run_loops_def Let_def loop_y_reserved mul32_def int32_eq)
qed

text \<open>
  C2, as amended. For every size from 1 to 46340 vertices a side, whose square fits the
  \<open>int\<close> count of the buffer, every origin for which the grid points of the chunk
  lie from -21474836 to 21474836 on both axes, so that 100 times each fits into \<open>int\<close>,
  and all generation parameters, the worker's buffer holds the samples of the grid in
  row-major order: the rows for \<open>y\<close> from the origin's second component on, \<open>Size\<close>
  of them, and in each row the points for \<open>x\<close> from the origin's first component on,
  \<open>Size\<close> of them. Each sample's position is the grid point times 100, its height
  the noise value at the grid point times 100, as the floating-point product rounds it.
  There are \<open>Size * Size\<close> samples, that many are reserved, and \<open>Run\<close> appends exactly
  them to the chunk's vertex array.
\<close>

theorem Run_row_major_in_range:
  assumes "1 \<le> Size (Chunk t)" and "Size (Chunk t) \<le> 46340"
    and "- 21474836 \<le> fst (Coords (Chunk t))"
    and "fst (Coords (Chunk t)) + Size (Chunk t) - 1 \<le> 21474836"
    and "- 21474836 \<le> snd (Coords (Chunk t))"
    and "snd (Coords (Chunk t)) + Size (Chunk t) - 1 \<le> 21474836"
  shows "TempVertices (Run_loops to_float noise stops t) =
      concat (map (\<lambda>y. map (\<lambda>x.
          FVertices (FVector (of_int (x * 100)) (of_int (y * 100))
            (to_float (noise x y (Octaves (Parameters t)) (Persistence (Parameters t))
               (Frequency (Parameters t)) (Seed (Parameters t)) * 100))))
          [fst (Coords (Chunk t))..fst (Coords (Chunk t)) + Size (Chunk t) - 1])
        [snd (Coords (Chunk t))..snd (Coords (Chunk t)) + Size (Chunk t) - 1])
    \<and> length (TempVertices (Run_loops to_float noise stops t)) = nat (Size (Chunk t) * Size (Chunk t))
    \<and> reserved (Run_loops to_float noise stops t) = Size (Chunk t) * Size (Chunk t)
    \<and> VertexArray (Chunk (Run to_float noise stops t)) =
        VertexArray (Chunk t) @ TempVertices (Run_loops to_float noise stops t)"
proof -
  have r: "in32 (fst (Coords (Chunk t)))" "in32 (snd (Coords (Chunk t)))"
    "in32 (fst (Coords (Chunk t)) + Size (Chunk t))"
    "in32 (snd (Coords (Chunk t)) + Size (Chunk t))"
    using assms by (simp_all add: in32_def)
  have rows: "\<And>y. y \<in> set [snd (Coords (Chunk t))..snd (Coords (Chunk t)) + Size (Chunk t) - 1] \<Longrightarrow>
      grid_row to_float noise (Parameters t) (fst (Coords (Chunk t))) (fst (Coords (Chunk t)) + Size (Chunk t)) y =
      map (\<lambda>x. FVertices (FVector (of_int (x * 100)) (of_int (y * 100))
            (to_float (noise x y (Octaves (Parameters t)) (Persistence (Parameters t))
               (Frequency (Parameters t)) (Seed (Parameters t)) * 100))))
        [fst (Coords (Chunk t))..fst (Coords (Chunk t)) + Size (Chunk t) - 1]"
    using assms by (intro grid_row_in_range) simp_all
  have a: "TempVertices (Run_loops to_float noise stops t) =
      concat (map (\<lambda>y. map (\<lambda>x.
          FVertices (FVector (of_int (x * 100)) (of_int (y * 100))
            (to_float (noise x y (Octaves (Parameters t)) (Persistence (Parameters t))
               (Frequency (Parameters t)) (Seed (Parameters t)) * 100))))
          [fst (Coords (Chunk t))..fst (Coords (Chunk t)) + Size (Chunk t) - 1])
        [snd (Coords (Chunk t))..snd (Coords (Chunk t)) + Size (Chunk t) - 1])"
    unfolding Run_loops_TempVertices[OF r]
    by (rule arg_cong[where f = concat], rule map_cong) (simp_all add: rows)
  have b: "length (TempVertices (Run_loops to_float noise stops t)) = nat (Size (Chunk t) * Size (Chunk t))"
    using assms(1) by (simp add: Run_loops_length[OF r] nat_mult_distrib)
  have c: "VertexArray (Chunk (Run to_float noise stops t)) =
      VertexArray (Chunk t) @ TempVertices (Run_loops to_float noise stops t)"
    by (simp add: Run_Chunk)
  have d: "reserved (Run_loops to_float noise stops t) = Size (Chunk t) * Size (Chunk t)"
    using assms(1,2) by (intro Run_loops_reserved) simp_all
  show ?thesis using a b c d by blast
qed

theorem Run_row_major_in_range_witness:
  "1 \<le> Size (Chunk example_worker) \<and> Size (Chunk example_worker) \<le> 46340 \<and>
   - 21474836 \<le> fst (Coords (Chunk example_worker)) \<and>
   fst (Coords (Chunk example_worker)) + Size (Chunk example_worker) - 1 \<le> 21474836 \<and>
   length (TempVertices (Run_loops exact flat_noise (\<lambda>k. False) example_worker)) = 25 \<and>
   length (VertexArray (Chunk (Run exact flat_noise (\<lambda>k. False) example_worker))) = 25"
proof -
  have s: "Size (Chunk example_worker) = 5" "VertexArray (Chunk example_worker) = []"
    "Coords (Chunk example_worker) = (0, 0)"
    by (simp_all add: example_worker_def)
  have h: "1 \<le> Size (Chunk example_worker)" "Size (Chunk example_worker) \<le> 46340"
    "- 21474836 \<le> fst (Coords (Chunk example_worker))"
    "fst (Coords (Chunk example_worker)) + Size (Chunk example_worker) - 1 \<le> 21474836"
    "- 21474836 \<le> snd (Coords (Chunk example_worker))"
    "snd (Coords (Chunk example_worker)) + Size (Chunk example_worker) - 1 \<le> 21474836"
    by (simp_all add: s)
  note r = Run_row_major_in_range[OF h, where to_float = exact and noise = flat_noise and stops = "\<lambda>k. False"]
  have l: "length (TempVertices (Run_loops exact flat_noise (\<lambda>k. False) example_worker)) = 25"
    using r[THEN conjunct2, THEN conjunct1] by (simp add: s)
  have v: "VertexArray (Chunk (Run exact flat_noise (\<lambda>k. False) example_worker)) =
      TempVertices (Run_loops exact flat_noise (\<lambda>k. False) example_worker)"
    using r[THEN conjunct2, THEN conjunct2, THEN conjunct2] by (simp add: s)
  show ?thesis
    using h l v by simp
qed

text \<open>
  C2, as stated, for every origin: the chunk of one vertex at the origin
  \<open>(21474837, 0)\<close> gets a single sample, and its first position component is not
  \<open>21474837 * 100 = 2147483700\<close>, which does not fit into \<open>int\<close>, but the number
  -2147483596 that the product wraps to.
\<close>

theorem Run_scaled_position_wraps:
  "1 \<le> Size (Chunk far_worker) \<and> Coords (Chunk far_worker) = (21474837, 0) \<and>
   TempVertices (Run_loops exact flat_noise never_stopped far_worker) =
     [FVertices (FVector (- 2147483596) 0 0)]"
proof -
  have s: "Size (Chunk far_worker) = 1" "Coords (Chunk far_worker) = (21474837, 0)"
    by (simp_all add: far_worker_def)
  have r: "in32 (fst (Coords (Chunk far_worker)))" "in32 (snd (Coords (Chunk far_worker)))"
    "in32 (fst (Coords (Chunk far_worker)) + Size (Chunk far_worker))"
    "in32 (snd (Coords (Chunk far_worker)) + Size (Chunk far_worker))"
    by (simp_all add: s in32_def)
  have "TempVertices (Run_loops exact flat_noise never_stopped far_worker) =
      [FVertices (FVector (- 2147483596) 0 0)]"
    unfolding Run_loops_TempVertices[OF r]
    by (simp add: s grid_row_def sample_def flat_noise_def exact_def int32_def upto.simps)
  then show ?thesis by (simp add: s)
qed

text \<open>
  C10, as amended. A worker with a size from 0 to 46340 vertices a side, whose origin
  components and their sums with the size are \<open>int\<close> values, appends its buffer to
  the chunk once and then hands one task to the game thread; that task broadcasts one
  completion notification with the chunk's id and the chunk. This is so whatever calls
  of \<open>Stop\<close> arrive while it runs and whatever the shutdown flag was when it started:
  the buffer has \<open>Size * Size\<close> samples, that many are reserved, the chunk that is
  broadcast carries them, and the buffer is the one a worker that is never stopped
  computes.
\<close>

theorem thread_body_append_then_broadcast_in_range:
  assumes "0 \<le> Size (Chunk t)" and "Size (Chunk t) \<le> 46340"
    and "in32 (fst (Coords (Chunk t)))" and "fst (Coords (Chunk t)) + Size (Chunk t) < 2 ^ 31"
    and "in32 (snd (Coords (Chunk t)))" and "snd (Coords (Chunk t)) + Size (Chunk t) < 2 ^ 31"
  shows "snd (thread_body to_float noise stops t) =
      [VertexArrayAppend (TempVertices (Run_loops to_float noise stops t)), AsyncTaskGameThread]
    \<and> Exit_task (fst (thread_body to_float noise stops t)) =
        ((Run to_float noise stops t)\<lparr>bisOver := True\<rparr>,
         [OnCalcOverBroadcast (ChunkId (Chunk t)) (Chunk (Run to_float noise stops t))])
    \<and> length (TempVertices (Run_loops to_float noise stops t)) = nat (Size (Chunk t) * Size (Chunk t))
    \<and> reserved (Run_loops to_float noise stops t) = Size (Chunk t) * Size (Chunk t)
    \<and> VertexArray (Chunk (Run to_float noise stops t)) =
        VertexArray (Chunk t) @ TempVertices (Run_loops to_float noise stops t)
    \<and> TempVertices (Run_loops to_float noise stops t) =
        TempVertices (Run_loops to_float noise (\<lambda>k. False) (t\<lparr>bShutdown := False\<rparr>))"
proof -
  have r: "in32 (fst (Coords (Chunk t)))" "in32 (snd (Coords (Chunk t)))"
    "in32 (fst (Coords (Chunk t)) + Size (Chunk t))"
    "in32 (snd (Coords (Chunk t)) + Size (Chunk t))"
    using assms by (simp_all add: in32_def)
  have r': "in32 (fst (Coords (Chunk (t\<lparr>bShutdown := False\<rparr>))))"
    "in32 (snd (Coords (Chunk (t\<lparr>bShutdown := False\<rparr>))))"
    "in32 (fst (Coords (Chunk (t\<lparr>bShutdown := False\<rparr>))) + Size (Chunk (t\<lparr>bShutdown := False\<rparr>)))"
    "in32 (snd (Coords (Chunk (t\<lparr>bShutdown := False\<rparr>))) + Size (Chunk (t\<lparr>bShutdown := False\<rparr>)))"
    using r by simp_all
  have a: "snd (thread_body to_float noise stops t) =
      [VertexArrayAppend (TempVertices (Run_loops to_float noise stops t)), AsyncTaskGameThread]"
    by (simp add: thread_body_def Init_def Exit_def Let_def)
  have b: "Exit_task (fst (thread_body to_float noise stops t)) =
        ((Run to_float noise stops t)\<lparr>bisOver := True\<rparr>,
         [OnCalcOverBroadcast (ChunkId (Chunk t)) (Chunk (Run to_float noise stops t))])"
    by (simp add: thread_body_def Init_def Exit_task_def Let_def Run_Chunk)
  have c: "length (TempVertices (Run_loops to_float noise stops t)) = nat (Size (Chunk t) * Size (Chunk t))"
    using assms(1) by (simp add: Run_loops_length[OF r] nat_mult_distrib)
  have d: "VertexArray (Chunk (Run to_float noise stops t)) =
      VertexArray (Chunk t) @ TempVertices (Run_loops to_float noise stops t)"
    by (simp add: Run_Chunk)
  have e: "TempVertices (Run_loops to_float noise stops t) =
      TempVertices (Run_loops to_float noise (\<lambda>k. False) (t\<lparr>bShutdown := False\<rparr>))"
    unfolding Run_loops_TempVertices[OF r] Run_loops_TempVertices[OF r'] by simp
  have f: "reserved (Run_loops to_float noise stops t) = Size (Chunk t) * Size (Chunk t)"
    using assms(1,2) by (rule Run_loops_reserved)
  show ?thesis using a b c d e f by blast
qed

theorem thread_body_append_then_broadcast_in_range_witness:
  "0 \<le> Size (Chunk stopped_worker) \<and> Size (Chunk stopped_worker) \<le> 46340 \<and>
   in32 (fst (Coords (Chunk stopped_worker))) \<and>
   snd (thread_body exact flat_noise (\<lambda>k. True) stopped_worker) =
     [VertexArrayAppend (TempVertices (Run_loops exact flat_noise (\<lambda>k. True) stopped_worker)),
      AsyncTaskGameThread] \<and>
   snd (Exit_task (fst (thread_body exact flat_noise (\<lambda>k. True) stopped_worker))) =
     [OnCalcOverBroadcast 7 (Chunk (Run exact flat_noise (\<lambda>k. True) stopped_worker))] \<and>
   length (TempVertices (Run_loops exact flat_noise (\<lambda>k. True) stopped_worker)) = 64"
proof -
  have s: "Size (Chunk stopped_worker) = 8" "ChunkId (Chunk stopped_worker) = 7"
    "Coords (Chunk stopped_worker) = (0, 0)"
    by (simp_all add: stopped_worker_def)
  have h: "0 \<le> Size (Chunk stopped_worker)" "Size (Chunk stopped_worker) \<le> 46340"
    "in32 (fst (Coords (Chunk stopped_worker)))"
    "fst (Coords (Chunk stopped_worker)) + Size (Chunk stopped_worker) < 2 ^ 31"
    "in32 (snd (Coords (Chunk stopped_worker)))"
    "snd (Coords (Chunk stopped_worker)) + Size (Chunk stopped_worker) < 2 ^ 31"
    by (simp_all add: s in32_def)
  note r = thread_body_append_then_broadcast_in_range[OF h, where to_float = exact and noise = flat_noise and stops = "\<lambda>k. True"]
  have a: "snd (thread_body exact flat_noise (\<lambda>k. True) stopped_worker) =
     [VertexArrayAppend (TempVertices (Run_loops exact flat_noise (\<lambda>k. True) stopped_worker)),
      AsyncTaskGameThread]"
    using r[THEN conjunct1] .
  have b: "snd (Exit_task (fst (thread_body exact flat_noise (\<lambda>k. True) stopped_worker))) =
     [OnCalcOverBroadcast 7 (Chunk (Run exact flat_noise (\<lambda>k. True) stopped_worker))]"
    using r[THEN conjunct2, THEN conjunct1] by (simp add: s)
  have l: "length (TempVertices (Run_loops exact flat_noise (\<lambda>k. True) stopped_worker)) = 64"
    using r[THEN conjunct2, THEN conjunct2, THEN conjunct1] by (simp add: s)
  show ?thesis
    using h a b l by simp
qed

text \<open>
  C10, as stated, for every worker: the chunk of 32 vertices a side at the origin
  \<open>(2147483646, 0)\<close> should get \<open>32 * 32 = 1024\<close> samples. The bound
  \<open>_x + _size\<close> of the inner loop does not fit into \<open>int\<close> and wraps to a negative
  number, so no row gets a sample: the buffer that is appended is empty.
\<close>

theorem thread_body_bound_wraps:
  "0 \<le> Size (Chunk edge_worker) \<and> Size (Chunk edge_worker) * Size (Chunk edge_worker) = 1024 \<and>
   Coords (Chunk edge_worker) = (2147483646, 0) \<and>
   TempVertices (Run_loops exact flat_noise never_stopped edge_worker) = [] \<and>
   snd (thread_body exact flat_noise never_stopped edge_worker) = [VertexArrayAppend [], AsyncTaskGameThread]"
proof -
  have s: "Size (Chunk edge_worker) = 32" "Coords (Chunk edge_worker) = (2147483646, 0)"
    by (simp_all add: edge_worker_def)
  have n: "\<not> int32 2147483646 < int32 (add32 2147483646 32)"
    by (simp add: add32_def int32_def)
  have e: "TempVertices (Run_loops exact flat_noise never_stopped edge_worker) = []"
    by (simp add: Run_loops_def Let_def s double_to_int32_def in32_def
        loop_y_empty_rows[OF n[unfolded int32_eq[OF in32_int32]]])
  show ?thesis
    using e by (simp add: s thread_body_def Init_def Exit_def Let_def)
qed

text \<open>
  C4. The run loop does not consult the stop signal. A worker of eight vertices a side
  whose shutdown flag is set before it runs, and on which \<open>Stop\<close> is called again before
  every sample, still processes all 64 vertices: it passes both batch boundaries (after
  30 and after 60 samples, where it sleeps) and fills the buffer with 64 samples.
\<close>

theorem Run_ignores_stop:
  "bShutdown stopped_worker \<and>
   processedVertices (Run_loops to_float flat_noise (\<lambda>k. True) stopped_worker) = 64 \<and>
   sleeps (Run_loops to_float flat_noise (\<lambda>k. True) stopped_worker) = 2 \<and>
   length (TempVertices (Run_loops to_float flat_noise (\<lambda>k. True) stopped_worker)) = 64"
proof -
  have s: "Size (Chunk stopped_worker) = 8" "Coords (Chunk stopped_worker) = (0, 0)"
    by (simp_all add: stopped_worker_def)
  have r: "in32 (fst (Coords (Chunk stopped_worker)))" "in32 (snd (Coords (Chunk stopped_worker)))"
    "in32 (fst (Coords (Chunk stopped_worker)) + Size (Chunk stopped_worker))"
    "in32 (snd (Coords (Chunk stopped_worker)) + Size (Chunk stopped_worker))"
    "0 \<le> Size (Chunk stopped_worker)" "Size (Chunk stopped_worker) \<le> 46340"
    by (simp_all add: s in32_def)
  note c = Run_loops_count[OF r, where to_float = to_float and noise = flat_noise and stops = "\<lambda>k. True"]
  have p: "processedVertices (Run_loops to_float flat_noise (\<lambda>k. True) stopped_worker) = 64"
    using c by (simp add: s)
  have "int (sleeps (Run_loops to_float flat_noise (\<lambda>k. True) stopped_worker)) = 64 div 30"
    using c by (simp add: batch_inv_def p BatchSize_def)
  then have sl: "sleeps (Run_loops to_float flat_noise (\<lambda>k. True) stopped_worker) = 2"
    by simp
  have l: "length (TempVertices (Run_loops to_float flat_noise (\<lambda>k. True) stopped_worker)) = 64"
    by (simp add: Run_loops_length[OF r(1-4)] s)
  show ?thesis
    using p sl l by (simp add: stopped_worker_def)
qed

section \<open>The mesh builder's index helper: bounds\<close>

lemma int32_id: "0 \<le> k \<Longrightarrow> k < 2 ^ 31 \<Longrightarrow> int32 k = k"
  by (simp add: int32_def)

lemma cell_bound:
  fixes x y g :: int
  assumes "0 \<le> x" "x \<le> g - 1" "0 \<le> y" "y \<le> g - 1" "g \<le> 46340"
  shows "0 \<le> y * g \<and> y * g < 2 ^ 31 \<and> 0 \<le> x + y * g \<and> x + y * g < g * g \<and> x + y * g < 2 ^ 31"
proof -
  have g: "0 \<le> g" using assms by linarith
  have p: "0 \<le> y * g" using assms g by simp
  have "y * g \<le> (g - 1) * g"
    using assms g by (intro mult_right_mono) simp_all
  then have "x + y * g \<le> (g - 1) + (g - 1) * g" using assms by linarith
  also have "\<dots> = g * g - 1" by (simp add: algebra_simps)
  finally have lt: "x + y * g < g * g" by simp
  have "g * g \<le> 46340 * 46340"
    using assms g by (intro mult_mono) simp_all
  then have b: "x + y * g < 2 ^ 31" using lt by simp
  then have "y * g < 2 ^ 31" using assms by linarith
  then show ?thesis using p lt b assms by simp
qed

lemma cell_index:
  fixes x y g :: int
  assumes "0 \<le> x" "x \<le> g - 1" "0 \<le> y" "y \<le> g - 1" "g \<le> 46340"
  shows "add32 x (mul32 y g) = x + y * g"
  using cell_bound[OF assms] by (simp add: add32_def mul32_def int32_id)

text \<open>
  C9, as amended. For every grid size from 2 to 46340, whose square fits into
  \<open>int32\<close>, and every cell \<open>(x, y)\<close> with both coordinates from 0 to
  \<open>gridSize - 2\<close>, the four indices are \<open>x + y * gridSize\<close>,
  \<open>(x + 1) + y * gridSize\<close>, \<open>x + (y + 1) * gridSize\<close> and
  \<open>(x + 1) + (y + 1) * gridSize\<close>; they are pairwise distinct, and each lies from 0
  up to, not including, \<open>gridSize * gridSize\<close>.
\<close>

theorem GetSquareIndices_in_bounds:
  assumes "2 \<le> gridSize" and "gridSize \<le> 46340"
    and "0 \<le> x" and "x \<le> gridSize - 2" and "0 \<le> y" and "y \<le> gridSize - 2"
  shows "GetSquareIndices x y gridSize =
      \<lparr>bottomLeft = x + y * gridSize, bottomRight = (x + 1) + y * gridSize,
       topLeft = x + (y + 1) * gridSize, topRight = (x + 1) + (y + 1) * gridSize\<rparr>
    \<and> distinct [x + y * gridSize, (x + 1) + y * gridSize,
                 x + (y + 1) * gridSize, (x + 1) + (y + 1) * gridSize]
    \<and> (\<forall>i \<in> {x + y * gridSize, (x + 1) + y * gridSize,
                 x + (y + 1) * gridSize, (x + 1) + (y + 1) * gridSize}.
          0 \<le> i \<and> i < gridSize * gridSize)"
proof -
  have x1: "add32 x 1 = x + 1" and y1: "add32 y 1 = y + 1"
    using assms by (simp_all add: add32_def int32_id)
  have r: "0 \<le> x" "x \<le> gridSize - 1" "0 \<le> x + 1" "x + 1 \<le> gridSize - 1"
    "0 \<le> y" "y \<le> gridSize - 1" "0 \<le> y + 1" "y + 1 \<le> gridSize - 1"
    using assms by simp_all
  have a: "GetSquareIndices x y gridSize =
      \<lparr>bottomLeft = x + y * gridSize, bottomRight = (x + 1) + y * gridSize,
       topLeft = x + (y + 1) * gridSize, topRight = (x + 1) + (y + 1) * gridSize\<rparr>"
    unfolding GetSquareIndices_def x1 y1
    by (simp only: cell_index[OF r(1,2,5,6) assms(2)] cell_index[OF r(3,4,5,6) assms(2)]
        cell_index[OF r(1,2,7,8) assms(2)] cell_index[OF r(3,4,7,8) assms(2)])
  have e: "(y + 1) * gridSize = y * gridSize + gridSize"
    by (simp add: algebra_simps)
  have b: "distinct [x + y * gridSize, (x + 1) + y * gridSize,
                 x + (y + 1) * gridSize, (x + 1) + (y + 1) * gridSize]"
    unfolding e using assms by simp
  have c: "\<forall>i \<in> {x + y * gridSize, (x + 1) + y * gridSize,
                 x + (y + 1) * gridSize, (x + 1) + (y + 1) * gridSize}.
          0 \<le> i \<and> i < gridSize * gridSize"
    using cell_bound[OF r(1,2,5,6) assms(2)] cell_bound[OF r(3,4,5,6) assms(2)]
      cell_bound[OF r(1,2,7,8) assms(2)] cell_bound[OF r(3,4,7,8) assms(2)]
    by simp
  show ?thesis using a b c by blast
qed

theorem GetSquareIndices_in_bounds_witness:
  "(2::int) \<le> 5 \<and> (5::int) \<le> 46340 \<and> (0::int) \<le> 3 \<and> (3::int) \<le> 5 - 2 \<and>
   GetSquareIndices 3 3 5 = \<lparr>bottomLeft = 18, bottomRight = 19, topLeft = 23, topRight = 24\<rparr>"
  using GetSquareIndices_in_bounds[of 5 3 3] by simp

text \<open>
  C9, as stated, for every grid size of at least 2: at grid size 65536 the cell
  \<open>(0, 32768)\<close> is an interior cell, and its bottom-left index \<open>32768 * 65536\<close> does
  not fit into \<open>int32\<close>; it wraps around to a negative number.
\<close>

theorem GetSquareIndices_overflow:
  "(2::int) \<le> 65536 \<and> (0::int) \<le> 0 \<and> (0::int) \<le> 65536 - 2 \<and> (0::int) \<le> 32768 \<and>
   (32768::int) \<le> 65536 - 2 \<and>
   bottomLeft (GetSquareIndices 0 32768 65536) = - 2147483648 \<and>
   \<not> (0 \<le> bottomLeft (GetSquareIndices 0 32768 65536))"
  by (simp add: GetSquareIndices_def add32_def mul32_def int32_def)

section \<open>Chunk identifiers: the pairing is a bijection\<close>

lemma decode_encode: "decode (encode c) = c"
proof -
  obtain x y where c: "c = (x, y)" by (cases c)
  have hi: "ucast (drop_bit 32 (encode (x, y))) = x"
    unfolding encode_def
    by (rule bit_word_eqI) (auto simp: bit_simps dest: bit_imp_le_length)
  have lo: "ucast (encode (x, y)) = y"
    unfolding encode_def
    by (rule bit_word_eqI) (auto simp: bit_simps dest: bit_imp_le_length)
  show ?thesis
    by (simp add: c decode_def hi lo)
qed

lemma encode_decode: "encode (decode i) = i"
  unfolding encode_def decode_def
  by (rule bit_word_eqI) (auto simp: bit_simps dest: bit_imp_le_length)

text \<open>
  C3. Over all pairs of 32-bit coordinates, decoding an encoded pair gives the pair back,
  and two pairs have the same id only if they are the same pair. Every 64-bit id is
  moreover the id of the pair it decodes to.
\<close>

theorem encode_bijective:
  "decode (encode c) = c \<and> encode (decode i) = i \<and> (encode c1 = encode c2 \<longleftrightarrow> c1 = c2)"
proof -
  have "encode c1 = encode c2 \<Longrightarrow> c1 = c2"
    by (metis decode_encode)
  then show ?thesis
    using decode_encode encode_decode by blast
qed

section \<open>The chunk manager: the window around the player\<close>

lemma queue_row_Some:
  "in32 x \<Longrightarrow> b < 2 ^ 31 - 1 \<Longrightarrow>
   queue_row getId (Some g) sz y (Finite b) x q =
     Some (Inr (q @ filter (missing getId g sz) (map (\<lambda>x. (x, y)) [x..b])))"
proof (induction "nat (b + 1 - x)" arbitrary: x q)
  case 0
  then have "\<not> x \<le> b" by simp
  then show ?case by (subst queue_row.simps) simp
next
  case (Suc n)
  then have le: "x \<le> b" by linarith
  then have u: "[x..b] = x # [x + 1..b]"
    by (simp add: upto_rec1)
  have a: "add32 x 1 = x + 1" and r: "in32 (x + 1)"
    using le Suc.prems by (simp_all add: add32_def int32_def in32_def)
  have n: "n = nat (b + 1 - (x + 1))" using Suc.hyps(2) by simp
  show ?case
    using Suc.hyps(1)[OF n r Suc.prems(2)] le
    by (subst queue_row.simps) (simp add: a u missing_def)
qed

lemma queue_window_Some:
  "in32 y \<Longrightarrow> yb < 2 ^ 31 - 1 \<Longrightarrow> in32 xlo \<Longrightarrow> xb < 2 ^ 31 - 1 \<Longrightarrow>
   queue_window getId (Some g) sz xlo (Finite xb) (Finite yb) y q =
     Some (Inr (q @ filter (missing getId g sz)
             (concat (map (\<lambda>y. map (\<lambda>x. (x, y)) [xlo..xb]) [y..yb]))))"
proof (induction "nat (yb + 1 - y)" arbitrary: y q)
  case 0
  then have "\<not> y \<le> yb" by simp
  then show ?case by (subst queue_window.simps) simp
next
  case (Suc n)
  then have le: "y \<le> yb" by linarith
  then have u: "[y..yb] = y # [y + 1..yb]"
    by (simp add: upto_rec1)
  have a: "add32 y 1 = y + 1" and r: "in32 (y + 1)"
    using le Suc.prems by (simp_all add: add32_def int32_def in32_def)
  have n: "n = nat (yb + 1 - (y + 1))" using Suc.hyps(2) by simp
  show ?case
    using Suc.hyps(1)[OF n r Suc.prems(2,3,4)] le
    by (subst queue_window.simps) (simp add: a u queue_row_Some[OF Suc.prems(3,4)])
qed

lemma queue_far_filter:
  "queue_far pqx pqy R sz m q = q @ map fst (filter (far_away pqx pqy R sz) m)"
  by (induction pqx pqy R sz m q rule: queue_far.induct) (simp_all add: Let_def far_away_def)

lemma far_axis:
  assumes "2 \<le> sz"
  shows "\<bar>c - p * (sz - 1)\<bar> > R * (sz - 1) \<longleftrightarrow>
         \<bar>real_of_int c / (of_int sz - 1) - of_int p\<bar> > of_int R"
proof -
  define d :: real where "d = of_int sz - 1"
  have d: "0 < d" using assms by (simp add: d_def)
  have "real_of_int c / d - of_int p = (of_int c - of_int p * d) / d"
    using d by (simp add: field_simps)
  then have "\<bar>real_of_int c / d - of_int p\<bar> = \<bar>of_int c - of_int p * d\<bar> / d"
    using d by (simp add: abs_divide)
  moreover have "of_int R < \<bar>of_int c - of_int p * d\<bar> / d \<longleftrightarrow> of_int R * d < \<bar>of_int c - of_int p * d\<bar>"
    using d by (simp add: pos_less_divide_eq)
  moreover have "of_int R * d = real_of_int (R * (sz - 1))"
    by (simp add: d_def)
  moreover have "\<bar>of_int c - of_int p * d\<bar> = real_of_int \<bar>c - p * (sz - 1)\<bar>"
    by (simp add: d_def)
  ultimately show ?thesis
    unfolding d_def by (metis of_int_less_iff)
qed

lemma far_iff_distance:
  assumes "2 \<le> sz"
  shows "(\<bar>fst c - fst pos * (sz - 1)\<bar> > R * (sz - 1) \<or> \<bar>snd c - snd pos * (sz - 1)\<bar> > R * (sz - 1))
         \<longleftrightarrow> chunk_distance sz pos c > of_int R"
  unfolding chunk_distance_def less_max_iff_disj
  using far_axis[OF assms] by simp

lemma set_window_coords:
  "set (window_coords R pos) = {(x, y). \<bar>x - fst pos\<bar> \<le> R \<and> \<bar>y - snd pos\<bar> \<le> R}"
proof -
  have "\<And>a b. (a, b) \<in> set (window_coords R pos) \<longleftrightarrow> \<bar>a - fst pos\<bar> \<le> R \<and> \<bar>b - snd pos\<bar> \<le> R"
    unfolding window_coords_def by (simp add: image_iff abs_le_iff) linarith
  then show ?thesis by auto
qed

lemma length_window_coords:
  "0 \<le> R \<Longrightarrow> length (window_coords R pos) = nat ((2 * R + 1) * (2 * R + 1))"
proof -
  assume R: "0 \<le> R"
  have "map length (map (\<lambda>y. map (\<lambda>x. (x, y)) [fst pos - R..fst pos + R]) [snd pos - R..snd pos + R])
        = replicate (nat (2 * R + 1)) (nat (2 * R + 1))"
    by (simp add: map_replicate_const comp_def)
  then show ?thesis
    using R by (simp add: window_coords_def length_concat sum_list_replicate nat_mult_distrib)
qed

lemma distinct_window_coords: "distinct (window_coords R pos)"
  unfolding window_coords_def
  by (rule distinct_concat) (auto simp: distinct_map inj_on_def)


lemma Tick_window_moved:
  assumes "chunk_coordinate to_float to_double (ChunkSize s) (fst loc) = Finite px"
    and "chunk_coordinate to_float to_double (ChunkSize s) (snd loc) = Finite py"
    and "\<not> Equals (PlayerPos s) (Finite px, Finite py)"
    and "in32 (px - RenderDistance s)" and "px + RenderDistance s < 2 ^ 31 - 1"
    and "in32 (py - RenderDistance s)" and "py + RenderDistance s < 2 ^ 31 - 1"
  shows "Tick_window to_float to_double getId (Some g) (Some loc) s =
     Some (Inr (s\<lparr>PlayerPos := (Finite px, Finite py),
             ChunkGenerationQueue := ChunkGenerationQueue s @
               filter (missing getId g (ChunkSize s)) (window_coords (RenderDistance s) (px, py)),
             ChunkDestructionQueue := ChunkDestructionQueue s @
               map fst (filter (far_away (double_to_int32 (px * sub32 (ChunkSize s) 1))
                   (double_to_int32 (py * sub32 (ChunkSize s) 1)) (RenderDistance s) (ChunkSize s))
                 (ChunkMap g))\<rparr>))"
  using assms(3)
  by (simp add: Tick_window_def Let_def assms(1,2) double_to_int32_eq[OF assms(4)]
      double_to_int32_eq[OF assms(6)] queue_window_Some[OF assms(6,7,4,5)]
      queue_far_filter window_coords_def)

lemma mul32_between:
  assumes "0 \<le> e" and "in32 (lo * e)" and "in32 (hi * e)" and "lo \<le> x" and "x \<le> hi"
  shows "mul32 x e = x * e"
proof -
  have "lo * e \<le> x * e" "x * e \<le> hi * e"
    using assms by (simp_all add: mult_right_mono)
  then have "in32 (x * e)"
    using assms(2,3) by (simp add: in32_def)
  then show ?thesis by (simp add: mul32_def int32_eq)
qed

lemma missing_in_range:
  assumes "2 \<le> sz" and "sz < 2 ^ 31"
    and "in32 ((px - R) * (sz - 1))" and "in32 ((px + R) * (sz - 1))"
    and "in32 ((py - R) * (sz - 1))" and "in32 ((py + R) * (sz - 1))"
    and "c \<in> set (window_coords R (px, py))"
  shows "missing getId g sz c = (\<not> HasChunk g (getId (fst c * (sz - 1)) (snd c * (sz - 1))))"
proof -
  have e: "sub32 sz 1 = sz - 1"
    using assms(1,2) by (simp add: sub32_def int32_eq in32_def)
  have r: "px - R \<le> fst c" "fst c \<le> px + R" "py - R \<le> snd c" "snd c \<le> py + R"
    using assms(7) by (auto simp: set_window_coords)
  have p: "0 \<le> sz - 1" using assms(1) by simp
  show ?thesis
    unfolding missing_def e
    by (simp add: mul32_between[OF p assms(3,4) r(1,2)] mul32_between[OF p assms(5,6) r(3,4)])
qed

lemma far_axis_in_range:
  assumes "in32 c" and "in32 q" and "\<bar>c - q\<bar> < 2 ^ 31"
  shows "abs32 (sub32 (double_to_int32 c) q) = \<bar>c - q\<bar>"
proof -
  have a: "in32 (c - q)" "in32 \<bar>c - q\<bar>"
    using assms(3) unfolding in32_def by linarith+
  show ?thesis
    by (simp add: abs32_def sub32_def double_to_int32_eq[OF assms(1)] int32_eq a)
qed

lemma far_away_in_range:
  assumes "2 \<le> sz" and "sz < 2 ^ 31" and "in32 (R * (sz - 1))"
    and "in32 (px * (sz - 1))" and "in32 (py * (sz - 1))"
    and "in32 (fst (Coords (snd e)))" and "in32 (snd (Coords (snd e)))"
    and "\<bar>fst (Coords (snd e)) - px * (sz - 1)\<bar> < 2 ^ 31"
    and "\<bar>snd (Coords (snd e)) - py * (sz - 1)\<bar> < 2 ^ 31"
  shows "far_away (double_to_int32 (px * sub32 sz 1)) (double_to_int32 (py * sub32 sz 1)) R sz e
    \<longleftrightarrow> chunk_distance sz (px, py) (Coords (snd e)) > of_int R"
proof -
  have s: "sub32 sz 1 = sz - 1"
    using assms(1,2) by (simp add: sub32_def int32_eq in32_def)
  have m: "mul32 R (sz - 1) = R * (sz - 1)"
    using assms(3) by (simp add: mul32_def int32_eq)
  show ?thesis
    unfolding far_away_def s m double_to_int32_eq[OF assms(4)] double_to_int32_eq[OF assms(5)]
      far_axis_in_range[OF assms(6,4,8)] far_axis_in_range[OF assms(7,5,9)]
    using far_iff_distance[OF assms(1), where c = "Coords (snd e)" and pos = "(px, py)" and R = R]
    by simp
qed

lemma ex_fields:
  "bInitialChunksGenerated example_manager" "PlayerPos example_manager = (Finite 0, Finite 0)"
  "ChunkSize example_manager = 32" "RenderDistance example_manager = 1"
  "ChunkGenerationQueue example_manager = [(5, 5), (6, 5), (7, 5)]"
  "ChunkDestructionQueue example_manager = [11, 12]"
  by (simp_all add: example_manager_def)

lemma window_one_zero:
  "window_coords 1 (1, 0) = [(0, -1), (1, -1), (2, -1), (0, 0), (1, 0), (2, 0), (0, 1), (1, 1), (2, 1)]"
  by (simp add: window_coords_def upto.simps)

text \<open>
  C1, as amended. In the steady phase, on a tick where the player's chunk coordinate
  \<open>(px, py)\<close> differs from the stored one, and provided that the chunk has an edge
  (\<open>ChunkSize\<close> is at least 2) and that the \<open>int32\<close> arithmetic of the tick does
  not overflow, the tick stores the coordinate and then drains from a state in which:
  the creation queue has received, behind what it held, exactly the coordinates of the
  window of radius \<open>R\<close> around \<open>(px, py)\<close> whose chunk id the generator does not
  have, and the destruction queue has received, behind what it held, exactly the ids of
  the registered chunks whose Chebyshev distance from \<open>(px, py)\<close> in chunk units
  exceeds \<open>R\<close>. So a chunk that is present and in range is queued for neither. The
  window is the square of side \<open>2R + 1\<close> around \<open>(px, py)\<close>: its coordinates are
  those within \<open>R\<close> of it on both axes, each once, \<open>(2R + 1) * (2R + 1)\<close> in all.
  No overflow means: \<open>ChunkSize\<close> is an \<open>int32\<close> value and \<open>R\<close> is not
  negative; the window's bounds \<open>px - R\<close>, \<open>py - R\<close> are \<open>int32\<close> values and
  \<open>px + R\<close>, \<open>py + R\<close> lie below the greatest one; the origins of the window's
  corners, \<open>(px - R) * (ChunkSize - 1)\<close> and \<open>(px + R) * (ChunkSize - 1)\<close> and the
  same for \<open>py\<close>, and the range \<open>R * (ChunkSize - 1)\<close> are \<open>int32\<close> values; and
  every registered chunk's origin is one and differs from the player's origin by less
  than \<open>2^31\<close> on both axes. The coordinate \<open>(px, py)\<close> is the one the tick computes,
  whatever the rounding of its floating-point operations.
\<close>

theorem Tick_window_diff_in_range:
  assumes "bInitialChunksGenerated s"
    and "chunk_coordinate to_float to_double (ChunkSize s) (fst loc) = Finite px"
    and "chunk_coordinate to_float to_double (ChunkSize s) (snd loc) = Finite py"
    and "\<not> Equals (PlayerPos s) (Finite px, Finite py)"
    and "2 \<le> ChunkSize s" and "ChunkSize s < 2 ^ 31"
    and "0 \<le> RenderDistance s"
    and "in32 (px - RenderDistance s)" and "px + RenderDistance s < 2 ^ 31 - 1"
    and "in32 (py - RenderDistance s)" and "py + RenderDistance s < 2 ^ 31 - 1"
    and "in32 ((px - RenderDistance s) * (ChunkSize s - 1))"
    and "in32 ((px + RenderDistance s) * (ChunkSize s - 1))"
    and "in32 ((py - RenderDistance s) * (ChunkSize s - 1))"
    and "in32 ((py + RenderDistance s) * (ChunkSize s - 1))"
    and "in32 (RenderDistance s * (ChunkSize s - 1))"
    and "\<forall>e \<in> set (ChunkMap g).
           in32 (fst (Coords (snd e))) \<and> in32 (snd (Coords (snd e))) \<and>
           \<bar>fst (Coords (snd e)) - px * (ChunkSize s - 1)\<bar> < 2 ^ 31 \<and>
           \<bar>snd (Coords (snd e)) - py * (ChunkSize s - 1)\<bar> < 2 ^ 31"
  shows "Tick to_float to_double getId (Some g) (Some loc) DeltaTime s =
     Some (Inr (Tick_drain to_float (Some g) DeltaTime
       (s\<lparr>PlayerPos := (Finite px, Finite py),
          ChunkGenerationQueue := ChunkGenerationQueue s @
            filter (\<lambda>(x, y). \<not> HasChunk g (getId (x * (ChunkSize s - 1)) (y * (ChunkSize s - 1))))
              (window_coords (RenderDistance s) (px, py)),
          ChunkDestructionQueue := ChunkDestructionQueue s @
            map fst (filter (\<lambda>(i, chunk).
                chunk_distance (ChunkSize s) (px, py) (Coords chunk) > of_int (RenderDistance s))
              (ChunkMap g))\<rparr>)))
   \<and> set (window_coords (RenderDistance s) (px, py)) =
       {(x, y). \<bar>x - px\<bar> \<le> RenderDistance s \<and> \<bar>y - py\<bar> \<le> RenderDistance s}
   \<and> distinct (window_coords (RenderDistance s) (px, py))
   \<and> length (window_coords (RenderDistance s) (px, py)) =
       nat ((2 * RenderDistance s + 1) * (2 * RenderDistance s + 1))"
proof -
  have e0: "0 \<le> ChunkSize s - 1" using assms(5) by simp
  have pq: "in32 (px * (ChunkSize s - 1))" "in32 (py * (ChunkSize s - 1))"
  proof -
    have "(px - RenderDistance s) * (ChunkSize s - 1) \<le> px * (ChunkSize s - 1)"
      "px * (ChunkSize s - 1) \<le> (px + RenderDistance s) * (ChunkSize s - 1)"
      "(py - RenderDistance s) * (ChunkSize s - 1) \<le> py * (ChunkSize s - 1)"
      "py * (ChunkSize s - 1) \<le> (py + RenderDistance s) * (ChunkSize s - 1)"
      using e0 assms(7) by (simp_all add: mult_right_mono)
    then show "in32 (px * (ChunkSize s - 1))" "in32 (py * (ChunkSize s - 1))"
      using assms(12-15) by (simp_all add: in32_def)
  qed
  have m: "filter (missing getId g (ChunkSize s)) (window_coords (RenderDistance s) (px, py)) =
      filter (\<lambda>(x, y). \<not> HasChunk g (getId (x * (ChunkSize s - 1)) (y * (ChunkSize s - 1))))
        (window_coords (RenderDistance s) (px, py))"
    by (rule filter_cong[OF refl])
      (simp add: missing_in_range[OF assms(5,6,12-15)] case_prod_beta)
  have f: "filter (far_away (double_to_int32 (px * sub32 (ChunkSize s) 1))
                   (double_to_int32 (py * sub32 (ChunkSize s) 1)) (RenderDistance s) (ChunkSize s))
        (ChunkMap g) =
      filter (\<lambda>(i, chunk). chunk_distance (ChunkSize s) (px, py) (Coords chunk) > of_int (RenderDistance s))
        (ChunkMap g)"
  proof (rule filter_cong[OF refl])
    fix e assume "e \<in> set (ChunkMap g)"
    then have h: "in32 (fst (Coords (snd e)))" "in32 (snd (Coords (snd e)))"
      "\<bar>fst (Coords (snd e)) - px * (ChunkSize s - 1)\<bar> < 2 ^ 31"
      "\<bar>snd (Coords (snd e)) - py * (ChunkSize s - 1)\<bar> < 2 ^ 31"
      using assms(17) by auto
    show "far_away (double_to_int32 (px * sub32 (ChunkSize s) 1))
        (double_to_int32 (py * sub32 (ChunkSize s) 1)) (RenderDistance s) (ChunkSize s) e =
      (case e of (i, chunk) \<Rightarrow>
        chunk_distance (ChunkSize s) (px, py) (Coords chunk) > of_int (RenderDistance s))"
      using far_away_in_range[OF assms(5,6,16) pq h] by (simp add: case_prod_beta)
  qed
  have "Tick to_float to_double getId (Some g) (Some loc) DeltaTime s =
      Option.bind (Tick_window to_float to_double getId (Some g) (Some loc) s)
        (\<lambda>r. case r of Inl f \<Rightarrow> Some (Inl f)
            | Inr s1 \<Rightarrow> Some (Inr (Tick_drain to_float (Some g) DeltaTime s1)))"
    using assms(1) by (simp add: Tick_def)
  then have t: "Tick to_float to_double getId (Some g) (Some loc) DeltaTime s =
     Some (Inr (Tick_drain to_float (Some g) DeltaTime
       (s\<lparr>PlayerPos := (Finite px, Finite py),
          ChunkGenerationQueue := ChunkGenerationQueue s @
            filter (\<lambda>(x, y). \<not> HasChunk g (getId (x * (ChunkSize s - 1)) (y * (ChunkSize s - 1))))
              (window_coords (RenderDistance s) (px, py)),
          ChunkDestructionQueue := ChunkDestructionQueue s @
            map fst (filter (\<lambda>(i, chunk).
                chunk_distance (ChunkSize s) (px, py) (Coords chunk) > of_int (RenderDistance s))
              (ChunkMap g))\<rparr>)))"
    unfolding Tick_window_moved[OF assms(2,3,4,8,9,10,11)] m f by simp
  show ?thesis
    using t set_window_coords[of "RenderDistance s" "(px, py)"]
      length_window_coords[OF assms(7)] distinct_window_coords
    by simp
qed

theorem Tick_window_diff_in_range_witness:
  "bInitialChunksGenerated example_manager \<and>
   chunk_coordinate exact exact (ChunkSize example_manager) (fst (4650, 0)) = Finite 1 \<and>
   chunk_coordinate exact exact (ChunkSize example_manager) (snd (4650, 0)) = Finite 0 \<and>
   \<not> Equals (PlayerPos example_manager) (Finite 1, Finite 0) \<and>
   2 \<le> ChunkSize example_manager \<and> 0 \<le> RenderDistance example_manager \<and>
   Tick exact exact example_id (Some example_generator) (Some (4650, 0)) (1 / 64) example_manager =
     Some (Inr (Tick_drain exact (Some example_generator) (1 / 64)
       (example_manager\<lparr>PlayerPos := (Finite 1, Finite 0),
          ChunkGenerationQueue := [(5, 5), (6, 5), (7, 5),
             (0, -1), (1, -1), (2, -1), (2, 0), (0, 1), (1, 1), (2, 1)],
          ChunkDestructionQueue := [11, 12, example_id (-31) 0]\<rparr>)))"
proof -
  have h1: "bInitialChunksGenerated example_manager" by (simp add: ex_fields)
  have h2: "chunk_coordinate exact exact (ChunkSize example_manager) (fst (4650::real, 0::real)) = Finite 1"
    by (simp add: ex_fields chunk_coordinate_def exact_def)
  have h3: "chunk_coordinate exact exact (ChunkSize example_manager) (snd (4650::real, 0::real)) = Finite 0"
    by (simp add: ex_fields chunk_coordinate_def exact_def)
  have h4: "\<not> Equals (PlayerPos example_manager) (Finite 1, Finite 0)"
    by (simp add: ex_fields Equals_def)
  have h5: "2 \<le> ChunkSize example_manager" "ChunkSize example_manager < 2 ^ 31"
    "0 \<le> RenderDistance example_manager"
    by (simp_all add: ex_fields)
  have h6: "in32 (1 - RenderDistance example_manager)" "1 + RenderDistance example_manager < 2 ^ 31 - 1"
    "in32 (0 - RenderDistance example_manager)" "0 + RenderDistance example_manager < 2 ^ 31 - 1"
    "in32 ((1 - RenderDistance example_manager) * (ChunkSize example_manager - 1))"
    "in32 ((1 + RenderDistance example_manager) * (ChunkSize example_manager - 1))"
    "in32 ((0 - RenderDistance example_manager) * (ChunkSize example_manager - 1))"
    "in32 ((0 + RenderDistance example_manager) * (ChunkSize example_manager - 1))"
    "in32 (RenderDistance example_manager * (ChunkSize example_manager - 1))"
    by (simp_all add: ex_fields in32_def)
  have h7: "\<forall>e \<in> set (ChunkMap example_generator).
           in32 (fst (Coords (snd e))) \<and> in32 (snd (Coords (snd e))) \<and>
           \<bar>fst (Coords (snd e)) - 1 * (ChunkSize example_manager - 1)\<bar> < 2 ^ 31 \<and>
           \<bar>snd (Coords (snd e)) - 0 * (ChunkSize example_manager - 1)\<bar> < 2 ^ 31"
    by (simp add: example_generator_def chunk_at_def ex_fields in32_def)
  have c: "filter (\<lambda>(x, y). \<not> HasChunk example_generator (example_id (x * 31) (y * 31)))
        (window_coords 1 (1, 0)) = [(0, -1), (1, -1), (2, -1), (2, 0), (0, 1), (1, 1), (2, 1)]"
    by (simp add: window_one_zero example_generator_def chunk_at_def example_id_def)
  have d: "map fst (filter (\<lambda>(i, chunk). 1 < chunk_distance 32 (1, 0) (Coords chunk))
        (ChunkMap example_generator)) = [example_id (-31) 0]"
    by (simp add: example_generator_def chunk_at_def chunk_distance_def)
  show ?thesis
    using h1 h2 h3 h4 h5
      Tick_window_diff_in_range[OF h1 h2 h3 h4 h5 h6 h7, where getId = example_id and DeltaTime = "1 / 64", THEN conjunct1]
    by (simp add: ex_fields c d)
qed

lemma far_fields:
  "bInitialChunksGenerated far_manager" "PlayerPos far_manager = (Finite 0, Finite 0)"
  "ChunkSize far_manager = 32" "RenderDistance far_manager = 1"
  "ChunkGenerationQueue far_manager = []" "ChunkDestructionQueue far_manager = []"
  "TimeSinceLastChunkOperation far_manager = 0" "ChunkOperationInterval far_manager = 1 / 8"
  by (simp_all add: far_manager_def)

text \<open>
  C1, as stated, whenever the coordinate changes: with chunks of 32 vertices a side and
  render distance 1, a player at \<open>x = 214748366150\<close> is in chunk \<open>(69273666, 0)\<close>,
  whose origin \<open>69273666 * 31 = 2147483646\<close> is an \<open>int32\<close> value. The window holds
  the coordinate \<open>(69273667, 0)\<close>, and the generator does not have the id of its
  origin \<open>(69273667 * 31, 0)\<close>, so the coordinate is to be queued for creation. The tick
  computes that origin in \<open>int32\<close>, where it wraps to \<open>-2147483619\<close>, finds a chunk
  registered under the id of the wrapped origin, and queues the other eight coordinates
  of the window only. That chunk lies more than a render distance away from the player,
  by far, and is to be queued for destruction; the difference of the two origins wraps
  to 31, which is not above \<open>1 * 31\<close>, and the tick queues nothing for destruction.
\<close>

theorem Tick_window_origin_wraps:
  "bInitialChunksGenerated far_manager \<and>
   chunk_coordinate exact exact (ChunkSize far_manager) 214748366150 = Finite 69273666 \<and>
   chunk_coordinate exact exact (ChunkSize far_manager) 0 = Finite 0 \<and>
   \<not> Equals (PlayerPos far_manager) (Finite 69273666, Finite 0) \<and>
   (69273667, 0) \<in> set (window_coords (RenderDistance far_manager) (69273666, 0)) \<and>
   \<not> HasChunk wrapped_generator
       (example_id (69273667 * (ChunkSize far_manager - 1)) (0 * (ChunkSize far_manager - 1))) \<and>
   map (\<lambda>e. Coords (snd e)) (ChunkMap wrapped_generator) = [(- 2147483619, 0)] \<and>
   chunk_distance (ChunkSize far_manager) (69273666, 0) (- 2147483619, 0)
     > of_int (RenderDistance far_manager) \<and>
   Tick exact exact example_id (Some wrapped_generator) (Some (214748366150, 0)) (1 / 64) far_manager =
     Some (Inr (far_manager\<lparr>PlayerPos := (Finite 69273666, Finite 0),
                  ChunkGenerationQueue :=
                    [(69273665, -1), (69273666, -1), (69273667, -1),
                     (69273665, 0), (69273666, 0),
                     (69273665, 1), (69273666, 1), (69273667, 1)],
                  ChunkDestructionQueue := [],
                  TimeSinceLastChunkOperation := 1 / 64\<rparr>, []))"
proof -
  have h2: "chunk_coordinate exact exact (ChunkSize far_manager) (fst (214748366150::real, 0::real)) = Finite 69273666"
    by (simp add: far_fields chunk_coordinate_def exact_def)
  have h3: "chunk_coordinate exact exact (ChunkSize far_manager) (snd (214748366150::real, 0::real)) = Finite 0"
    by (simp add: far_fields chunk_coordinate_def exact_def)
  have h4: "\<not> Equals (PlayerPos far_manager) (Finite 69273666, Finite 0)"
    by (simp add: far_fields Equals_def)
  have h6: "in32 (69273666 - RenderDistance far_manager)" "69273666 + RenderDistance far_manager < 2 ^ 31 - 1"
    "in32 (0 - RenderDistance far_manager)" "0 + RenderDistance far_manager < 2 ^ 31 - 1"
    by (simp_all add: far_fields in32_def)
  have w: "window_coords 1 (69273666, 0) =
      [(69273665, -1), (69273666, -1), (69273667, -1),
       (69273665, 0), (69273666, 0), (69273667, 0),
       (69273665, 1), (69273666, 1), (69273667, 1)]"
    by (simp add: window_coords_def upto.simps)
  have n: "\<not> HasChunk wrapped_generator (example_id (69273667 * 31) 0)"
    by (simp add: wrapped_generator_def example_id_def)
  have c: "map (\<lambda>e. Coords (snd e)) (ChunkMap wrapped_generator) = [(- 2147483619, 0)]"
    by (simp add: wrapped_generator_def)
  have d: "chunk_distance 32 (69273666, 0) (- 2147483619, 0) > 1"
    by (simp add: chunk_distance_def)
  have m: "filter (missing example_id wrapped_generator 32) (window_coords 1 (69273666, 0)) =
      [(69273665, -1), (69273666, -1), (69273667, -1),
       (69273665, 0), (69273666, 0),
       (69273665, 1), (69273666, 1), (69273667, 1)]"
    unfolding w
    by (simp add: missing_def wrapped_generator_def example_id_def mul32_def sub32_def int32_def)
  have f: "filter (far_away (double_to_int32 (69273666 * sub32 32 1)) (double_to_int32 0) 1 32)
      (ChunkMap wrapped_generator) = []"
    by (simp add: far_away_def wrapped_generator_def mul32_def sub32_def abs32_def int32_def
        double_to_int32_def in32_def)
  have t: "Tick_window exact exact example_id (Some wrapped_generator) (Some (214748366150, 0)) far_manager =
      Some (Inr (far_manager\<lparr>PlayerPos := (Finite 69273666, Finite 0),
                  ChunkGenerationQueue :=
                    [(69273665, -1), (69273666, -1), (69273667, -1),
                     (69273665, 0), (69273666, 0),
                     (69273665, 1), (69273666, 1), (69273667, 1)],
                  ChunkDestructionQueue := []\<rparr>))"
    unfolding Tick_window_moved[OF h2 h3 h4 h6]
    by (simp add: far_fields m f)
  have "Tick exact exact example_id (Some wrapped_generator) (Some (214748366150, 0)) (1 / 64) far_manager =
     Some (Inr (far_manager\<lparr>PlayerPos := (Finite 69273666, Finite 0),
                  ChunkGenerationQueue :=
                    [(69273665, -1), (69273666, -1), (69273667, -1),
                     (69273665, 0), (69273666, 0),
                     (69273665, 1), (69273666, 1), (69273667, 1)],
                  ChunkDestructionQueue := [],
                  TimeSinceLastChunkOperation := 1 / 64\<rparr>, []))"
    by (simp add: Tick_def t far_fields Tick_drain_def Let_def exact_def)
  then show ?thesis
    using h2 h3 h4 n c d by (simp add: far_fields w)
qed





section \<open>The chunk manager: draining the queues\<close>



section \<open>The chunk manager: the initial chunks\<close>

lemma progress_reports_append: "progress_reports (xs @ ys) = progress_reports xs @ progress_reports ys"
  by (induction xs rule: progress_reports.induct) simp_all

lemma initial_row_Some:
  "initial_row (Some g) sz y hi x =
     map (\<lambda>c. GenerateChunk (fst c * (sz - 1)) (snd c * (sz - 1)) sz)
       (filter (\<lambda>c. c \<noteq> (0, 0)) (map (\<lambda>x. (x, y)) [x..hi]))"
proof (induction "Some g" sz y hi x rule: initial_row.induct)
  case (1 sz y hi x)
  show ?case
  proof (cases "x \<le> hi")
    case True
    then have u: "[x..hi] = x # [x + 1..hi]"
      by (simp add: upto_rec1)
    show ?thesis
      using 1[OF True] True
      by (subst initial_row.simps) (simp add: u RequestChunkGeneration_def)
  next
    case False
    then show ?thesis by (subst initial_row.simps) simp
  qed
qed

lemma initial_rows_Some:
  "initial_rows (Some g) sz xlo xhi yhi y =
     map (\<lambda>c. GenerateChunk (fst c * (sz - 1)) (snd c * (sz - 1)) sz)
       (filter (\<lambda>c. c \<noteq> (0, 0)) (concat (map (\<lambda>y. map (\<lambda>x. (x, y)) [xlo..xhi]) [y..yhi])))"
proof (induction "Some g" sz xlo xhi yhi y rule: initial_rows.induct)
  case (1 sz xlo xhi yhi y)
  show ?case
  proof (cases "y \<le> yhi")
    case True
    then have u: "[y..yhi] = y # [y + 1..yhi]"
      by (simp add: upto_rec1)
    show ?thesis
      using 1[OF True] True
      by (subst initial_rows.simps) (simp add: u initial_row_Some)
  next
    case False
    then show ?thesis by (subst initial_rows.simps) simp
  qed
qed

lemma filter_neq_absent: "a \<notin> set xs \<Longrightarrow> filter (\<lambda>c. c \<noteq> a) xs = xs"
  by (induction xs) auto

lemma length_filter_neq:
  "distinct xs \<Longrightarrow> a \<in> set xs \<Longrightarrow> Suc (length (filter (\<lambda>c. c \<noteq> a) xs)) = length xs"
  by (induction xs) (auto simp: filter_neq_absent)

lemma InitialChunkGeneration_calls:
  "InitialChunkGeneration (Some g) InR s =
     (s\<lparr>InitialChunksRemaining := GetInitialChunkCount InR\<rparr>,
      GenerateChunk 0 0 (ChunkSize s) #
      map (\<lambda>c. GenerateChunk (fst c * (ChunkSize s - 1)) (snd c * (ChunkSize s - 1)) (ChunkSize s))
        (filter (\<lambda>c. c \<noteq> (0, 0)) (window_coords (RenderDistance s) (0, 0))))"
  by (simp add: InitialChunkGeneration_def Let_def initial_rows_Some RequestChunkGeneration_def
      window_coords_def)

lemma length_initial_window:
  assumes "0 \<le> R"
  shows "int (Suc (length (filter (\<lambda>c. c \<noteq> (0, 0)) (window_coords R (0, 0))))) = (2 * R + 1) * (2 * R + 1)"
proof -
  have "(0, 0) \<in> set (window_coords R (0, 0))"
    using assms by (simp add: set_window_coords)
  then have "Suc (length (filter (\<lambda>c. c \<noteq> (0, 0)) (window_coords R (0, 0)))) = length (window_coords R (0, 0))"
    by (rule length_filter_neq[OF distinct_window_coords])
  then show ?thesis
    using assms by (simp add: length_window_coords)
qed

lemma initial_progress_step:
  "\<not> bInitialChunksGenerated s \<Longrightarrow>
   initial_progress s =
     (s\<lparr>InitialChunksRemaining := InitialChunksRemaining s - 1,
        bInitialChunksGenerated := (InitialChunksRemaining s - 1 \<le> 0)\<rparr>,
      [OnLoadingProgressUpdate
         (GetInitialChunkCount (RenderDistance s) - (InitialChunksRemaining s - 1))
         (GetInitialChunkCount (RenderDistance s))])"
  by (simp add: initial_progress_def Let_def)

lemma stress_progress_frame:
  "bInitialChunksGenerated (fst (stress_progress now s)) = bInitialChunksGenerated s \<and>
   InitialChunksRemaining (fst (stress_progress now s)) = InitialChunksRemaining s \<and>
   RenderDistance (fst (stress_progress now s)) = RenderDistance s \<and>
   progress_reports (snd (stress_progress now s)) = []"
  by (simp add: stress_progress_def Let_def)

lemma OnChunkGenerated_bootstrap:
  assumes "\<not> bInitialChunksGenerated s"
  shows "bInitialChunksGenerated (fst (OnChunkGenerated gen now i s)) = (InitialChunksRemaining s - 1 \<le> 0) \<and>
   InitialChunksRemaining (fst (OnChunkGenerated gen now i s)) = InitialChunksRemaining s - 1 \<and>
   RenderDistance (fst (OnChunkGenerated gen now i s)) = RenderDistance s \<and>
   progress_reports (snd (OnChunkGenerated gen now i s)) =
     [(GetInitialChunkCount (RenderDistance s) - (InitialChunksRemaining s - 1),
       GetInitialChunkCount (RenderDistance s))]"
proof -
  obtain s1 c1 where a: "initial_progress s = (s1, c1)" by fastforce
  obtain s2 c2 where b: "stress_progress now s1 = (s2, c2)" by fastforce
  have s1: "s1 = s\<lparr>InitialChunksRemaining := InitialChunksRemaining s - 1,
        bInitialChunksGenerated := (InitialChunksRemaining s - 1 \<le> 0)\<rparr>"
    and c1: "c1 = [OnLoadingProgressUpdate
         (GetInitialChunkCount (RenderDistance s) - (InitialChunksRemaining s - 1))
         (GetInitialChunkCount (RenderDistance s))]"
    using a initial_progress_step[OF assms] by simp_all
  have fr: "bInitialChunksGenerated s2 = bInitialChunksGenerated s1 \<and>
     InitialChunksRemaining s2 = InitialChunksRemaining s1 \<and>
     RenderDistance s2 = RenderDistance s1 \<and> progress_reports c2 = []"
    using stress_progress_frame[of now s1] b by simp
  have "OnChunkGenerated gen now i s =
      (s2, c1 @ c2 @ (case gen of None \<Rightarrow> [] | Some g \<Rightarrow> [DisplayChunk i]))"
    by (simp add: OnChunkGenerated_def a b)
  then show ?thesis
    using fr by (simp add: s1 c1 progress_reports_append split: option.split)
qed

lemma notifications_bootstrap:
  "\<not> bInitialChunksGenerated s \<Longrightarrow> int (length ns) \<le> InitialChunksRemaining s \<Longrightarrow>
   InitialChunksRemaining (fst (notifications gen ns s)) = InitialChunksRemaining s - int (length ns) \<and>
   (bInitialChunksGenerated (fst (notifications gen ns s)) \<longleftrightarrow>
      ns \<noteq> [] \<and> int (length ns) = InitialChunksRemaining s) \<and>
   progress_reports (snd (notifications gen ns s)) =
     map (\<lambda>k. (k, GetInitialChunkCount (RenderDistance s)))
       [GetInitialChunkCount (RenderDistance s) - InitialChunksRemaining s + 1..
        GetInitialChunkCount (RenderDistance s) - InitialChunksRemaining s + int (length ns)]"
proof (induction ns arbitrary: s)
  case Nil
  then show ?case by simp
next
  case (Cons n ns)
  obtain now i where n: "n = (now, i)" by (cases n)
  define s1 where "s1 = fst (OnChunkGenerated gen now i s)"
  define c1 where "c1 = snd (OnChunkGenerated gen now i s)"
  define T where "T = GetInitialChunkCount (RenderDistance s)"
  define a where "a = T - InitialChunksRemaining s"
  have step: "bInitialChunksGenerated s1 = (InitialChunksRemaining s - 1 \<le> 0)"
    "InitialChunksRemaining s1 = InitialChunksRemaining s - 1"
    "RenderDistance s1 = RenderDistance s"
    "progress_reports c1 = [(a + 1, T)]"
    using OnChunkGenerated_bootstrap[OF Cons.prems(1), of gen now i]
    by (simp_all add: s1_def c1_def T_def a_def)
  have unf: "notifications gen (n # ns) s =
      (fst (notifications gen ns s1), c1 @ snd (notifications gen ns s1))"
    by (simp add: n s1_def c1_def split_beta)
  have rng: "[a + 1..a + int (length (n # ns))] = (a + 1) # [a + 1 + 1..a + 1 + int (length ns)]"
  proof -
    have e: "a + int (length (n # ns)) = a + 1 + int (length ns)" by simp
    show ?thesis unfolding e by (rule upto_rec1) simp
  qed
  show ?case
  proof (cases "ns = []")
    case True
    then show ?thesis
      using Cons.prems step unf by (auto simp: progress_reports_append T_def a_def)
  next
    case False
    then have pos: "1 \<le> int (length ns)" by (cases ns) simp_all
    have "2 \<le> InitialChunksRemaining s"
      using Cons.prems(2) pos by simp
    then have open1: "\<not> bInitialChunksGenerated s1"
      using step(1) by simp
    have le: "int (length ns) \<le> InitialChunksRemaining s1"
      using Cons.prems(2) step by simp
    have a1: "GetInitialChunkCount (RenderDistance s) - InitialChunksRemaining s1 = a + 1"
      using step by (simp add: a_def T_def)
    have ih: "InitialChunksRemaining (fst (notifications gen ns s1)) = InitialChunksRemaining s1 - int (length ns)"
      "bInitialChunksGenerated (fst (notifications gen ns s1)) \<longleftrightarrow> ns \<noteq> [] \<and> int (length ns) = InitialChunksRemaining s1"
      "progress_reports (snd (notifications gen ns s1)) = map (\<lambda>k. (k, T)) [a + 1 + 1..a + 1 + int (length ns)]"
      using Cons.IH[OF open1 le] unfolding step(3) a1 T_def by simp_all
    have r: "progress_reports (snd (notifications gen (n # ns) s)) = map (\<lambda>k. (k, T)) [a + 1..a + int (length (n # ns))]"
      unfolding unf rng by (simp add: progress_reports_append step(4) ih(3))
    have i: "InitialChunksRemaining (fst (notifications gen (n # ns) s)) = InitialChunksRemaining s - int (length (n # ns))"
      unfolding unf using ih(1) step(2) by simp
    have b: "bInitialChunksGenerated (fst (notifications gen (n # ns) s)) \<longleftrightarrow>
        n # ns \<noteq> [] \<and> int (length (n # ns)) = InitialChunksRemaining s"
      unfolding unf using ih(2) step(2) False by auto
    show ?thesis
      using r i b unfolding a_def T_def by blast
  qed
qed

text \<open>
  When \<open>InitialChunkGeneration\<close> is called with the manager's own render distance
  \<open>R \<ge> 0\<close>, it issues exactly \<open>(2R + 1) * (2R + 1)\<close> generation requests, the one
  for the origin \<open>(0, 0)\<close> first and then one for every other coordinate of the window
  around it, and sets the remaining count to that total. Each completion notification
  after that lowers the remaining count by one and reports the progress
  \<open>(total - remaining, total)\<close>: the reports of the first \<open>n\<close> notifications are
  \<open>(1, total)\<close> to \<open>(n, total)\<close>. The steady phase is entered exactly when the count
  is down to 0, after \<open>total\<close> notifications, and the last report then is
  \<open>(total, total)\<close>.
\<close>

lemma bootstrap_matching_distance:
  assumes "0 \<le> RenderDistance s"
    and "\<not> bInitialChunksGenerated s"
    and "InitialChunkGeneration (Some g) (RenderDistance s) s = (s0, reqs)"
    and "int (length ns) \<le> (2 * RenderDistance s + 1) * (2 * RenderDistance s + 1)"
  shows "int (length reqs) = (2 * RenderDistance s + 1) * (2 * RenderDistance s + 1)
    \<and> reqs = GenerateChunk 0 0 (ChunkSize s) #
        map (\<lambda>c. GenerateChunk (fst c * (ChunkSize s - 1)) (snd c * (ChunkSize s - 1)) (ChunkSize s))
          (filter (\<lambda>c. c \<noteq> (0, 0)) (window_coords (RenderDistance s) (0, 0)))
    \<and> InitialChunksRemaining s0 = (2 * RenderDistance s + 1) * (2 * RenderDistance s + 1)
    \<and> InitialChunksRemaining (fst (notifications gen ns s0)) =
        (2 * RenderDistance s + 1) * (2 * RenderDistance s + 1) - int (length ns)
    \<and> progress_reports (snd (notifications gen ns s0)) =
        map (\<lambda>k. (k, (2 * RenderDistance s + 1) * (2 * RenderDistance s + 1))) [1..int (length ns)]
    \<and> (bInitialChunksGenerated (fst (notifications gen ns s0)) \<longleftrightarrow>
        int (length ns) = (2 * RenderDistance s + 1) * (2 * RenderDistance s + 1))
    \<and> (int (length ns) = (2 * RenderDistance s + 1) * (2 * RenderDistance s + 1) \<longrightarrow>
        last (progress_reports (snd (notifications gen ns s0))) =
          ((2 * RenderDistance s + 1) * (2 * RenderDistance s + 1),
           (2 * RenderDistance s + 1) * (2 * RenderDistance s + 1)))"
proof -
  define T where "T = (2 * RenderDistance s + 1) * (2 * RenderDistance s + 1)"
  have T: "GetInitialChunkCount (RenderDistance s) = T"
    by (simp add: T_def GetInitialChunkCount_def)
  have Tpos: "1 \<le> T"
  proof -
    have "1 \<le> 2 * RenderDistance s + 1" using assms(1) by simp
    then have "1 * 1 \<le> (2 * RenderDistance s + 1) * (2 * RenderDistance s + 1)"
      by (intro mult_mono) simp_all
    then show ?thesis by (simp add: T_def)
  qed
  have s0: "s0 = s\<lparr>InitialChunksRemaining := T\<rparr>"
    and reqs: "reqs = GenerateChunk 0 0 (ChunkSize s) #
        map (\<lambda>c. GenerateChunk (fst c * (ChunkSize s - 1)) (snd c * (ChunkSize s - 1)) (ChunkSize s))
          (filter (\<lambda>c. c \<noteq> (0, 0)) (window_coords (RenderDistance s) (0, 0)))"
    using assms(3) unfolding InitialChunkGeneration_calls T by simp_all
  have len: "int (length reqs) = T"
    unfolding reqs T_def using length_initial_window[OF assms(1)] by simp
  have o: "\<not> bInitialChunksGenerated s0" "InitialChunksRemaining s0 = T" "RenderDistance s0 = RenderDistance s"
    using assms(2) by (simp_all add: s0)
  have le: "int (length ns) \<le> InitialChunksRemaining s0"
    using assms(4) by (simp add: o T_def)
  note n = notifications_bootstrap[OF o(1) le, of gen, unfolded o T]
  have r: "progress_reports (snd (notifications gen ns s0)) = map (\<lambda>k. (k, T)) [1..int (length ns)]"
    using n by simp
  have b: "bInitialChunksGenerated (fst (notifications gen ns s0)) \<longleftrightarrow> int (length ns) = T"
    using n Tpos by auto
  have l: "int (length ns) = T \<longrightarrow> last (progress_reports (snd (notifications gen ns s0))) = (T, T)"
  proof
    assume e: "int (length ns) = T"
    have "[1..T] = [1..T - 1] @ [T]"
      using Tpos by (simp add: upto_rec2)
    then show "last (progress_reports (snd (notifications gen ns s0))) = (T, T)"
      unfolding r e by simp
  qed
  show ?thesis
    using len reqs o(2) n r b l unfolding T_def by blast
qed

lemma starting_fields:
  "\<not> bInitialChunksGenerated starting_manager" "RenderDistance starting_manager = 2"
  "ChunkSize starting_manager = 32"
  by (simp_all add: starting_manager_def example_manager_def)

lemma bootstrap_matching_distance_example:
  "0 \<le> RenderDistance starting_manager \<and> \<not> bInitialChunksGenerated starting_manager \<and>
   int (length (snd (InitialChunkGeneration (Some example_generator) 2 starting_manager))) = 25 \<and>
   hd (snd (InitialChunkGeneration (Some example_generator) 2 starting_manager)) = GenerateChunk 0 0 32 \<and>
   bInitialChunksGenerated (fst (notifications (Some example_generator) (map (\<lambda>i. (0, i)) [1..25])
      (fst (InitialChunkGeneration (Some example_generator) 2 starting_manager)))) \<and>
   last (progress_reports (snd (notifications (Some example_generator) (map (\<lambda>i. (0, i)) [1..25])
      (fst (InitialChunkGeneration (Some example_generator) 2 starting_manager))))) = (25, 25)"
proof -
  have h1: "0 \<le> RenderDistance starting_manager" by (simp add: starting_fields)
  have h2: "\<not> bInitialChunksGenerated starting_manager" by (simp add: starting_fields)
  have h3: "InitialChunkGeneration (Some example_generator) (RenderDistance starting_manager) starting_manager =
      (fst (InitialChunkGeneration (Some example_generator) 2 starting_manager),
       snd (InitialChunkGeneration (Some example_generator) 2 starting_manager))"
    by (simp add: starting_fields)
  have h4: "int (length (map (\<lambda>i. (0::real, i)) [1..25])) \<le>
      (2 * RenderDistance starting_manager + 1) * (2 * RenderDistance starting_manager + 1)"
    by (simp add: starting_fields)
  note r = bootstrap_matching_distance[OF h1 h2 h3 h4, of "Some example_generator"]
  have a: "int (length (snd (InitialChunkGeneration (Some example_generator) 2 starting_manager))) = 25"
    using r[THEN conjunct1] by (simp add: starting_fields)
  have b: "hd (snd (InitialChunkGeneration (Some example_generator) 2 starting_manager)) = GenerateChunk 0 0 32"
    using r[THEN conjunct2, THEN conjunct1] by (simp add: starting_fields)
  have c: "bInitialChunksGenerated (fst (notifications (Some example_generator) (map (\<lambda>i. (0, i)) [1..25])
      (fst (InitialChunkGeneration (Some example_generator) 2 starting_manager))))"
    using r[THEN conjunct2, THEN conjunct2, THEN conjunct2, THEN conjunct2, THEN conjunct2, THEN conjunct1]
    by (simp add: starting_fields)
  have d: "last (progress_reports (snd (notifications (Some example_generator) (map (\<lambda>i. (0, i)) [1..25])
      (fst (InitialChunkGeneration (Some example_generator) 2 starting_manager))))) = (25, 25)"
    using r[THEN conjunct2, THEN conjunct2, THEN conjunct2, THEN conjunct2, THEN conjunct2, THEN conjunct2]
    by (simp add: starting_fields)
  show ?thesis using h1 h2 a b c d by blast
qed

lemma mismatched_fields:
  "\<not> bInitialChunksGenerated mismatched_manager" "RenderDistance mismatched_manager = 1"
  "ChunkSize mismatched_manager = 32"
  by (simp_all add: mismatched_manager_def starting_manager_def example_manager_def)

text \<open>
  C6. \<open>InitialChunkGeneration\<close> takes the remaining count from its argument and the
  window from the manager's field. Asked for render distance 2 on a manager whose
  \<open>RenderDistance\<close> is 1, it issues 9 requests, not 25, and sets the remaining count
  to 25. The nine completion notifications that can follow report the progress
  \<open>(-15, 9)\<close> to \<open>(-7, 9)\<close> and leave the count at 16: the steady phase is not
  entered and no report is \<open>(total, total)\<close>.
\<close>

theorem InitialChunkGeneration_ignores_argument:
  "RenderDistance mismatched_manager = 1 \<and>
   length (snd (InitialChunkGeneration (Some example_generator) 2 mismatched_manager)) = 9 \<and>
   InitialChunksRemaining (fst (InitialChunkGeneration (Some example_generator) 2 mismatched_manager)) = 25 \<and>
   progress_reports (snd (notifications (Some example_generator) (map (\<lambda>i. (0, i)) [1..9])
      (fst (InitialChunkGeneration (Some example_generator) 2 mismatched_manager)))) =
     [(-15, 9), (-14, 9), (-13, 9), (-12, 9), (-11, 9), (-10, 9), (-9, 9), (-8, 9), (-7, 9)] \<and>
   InitialChunksRemaining (fst (notifications (Some example_generator) (map (\<lambda>i. (0, i)) [1..9])
      (fst (InitialChunkGeneration (Some example_generator) 2 mismatched_manager)))) = 16 \<and>
   \<not> bInitialChunksGenerated (fst (notifications (Some example_generator) (map (\<lambda>i. (0, i)) [1..9])
      (fst (InitialChunkGeneration (Some example_generator) 2 mismatched_manager))))"
proof -
  define s0 where "s0 = fst (InitialChunkGeneration (Some example_generator) 2 mismatched_manager)"
  have s0: "s0 = mismatched_manager\<lparr>InitialChunksRemaining := 25\<rparr>"
    by (simp add: s0_def InitialChunkGeneration_calls GetInitialChunkCount_def)
  have a: "length (snd (InitialChunkGeneration (Some example_generator) 2 mismatched_manager)) = 9"
    using length_initial_window[of 1]
    by (simp add: InitialChunkGeneration_calls mismatched_fields)
  have o: "\<not> bInitialChunksGenerated s0" "InitialChunksRemaining s0 = 25" "RenderDistance s0 = 1"
    by (simp_all add: s0 mismatched_fields)
  have le: "int (length (map (\<lambda>i. (0::real, i)) [1..9])) \<le> InitialChunksRemaining s0"
    by (simp add: o)
  note n = notifications_bootstrap[OF o(1) le, of "Some example_generator", unfolded o]
  have r: "progress_reports (snd (notifications (Some example_generator) (map (\<lambda>i. (0, i)) [1..9]) s0)) =
      [(-15, 9), (-14, 9), (-13, 9), (-12, 9), (-11, 9), (-10, 9), (-9, 9), (-8, 9), (-7, 9)]"
    using n by (simp add: GetInitialChunkCount_def upto.simps)
  have i: "InitialChunksRemaining (fst (notifications (Some example_generator) (map (\<lambda>i. (0, i)) [1..9]) s0)) = 16"
    using n by simp
  have b: "\<not> bInitialChunksGenerated (fst (notifications (Some example_generator) (map (\<lambda>i. (0, i)) [1..9]) s0))"
    using n by simp
  show ?thesis
    using a r i b o(2) unfolding s0_def by (simp add: mismatched_fields)
qed

section \<open>The chunk manager: the stress test\<close>

lemma stress_requests_Some:
  "stress_requests (Some g) NumChunks i = map (\<lambda>i. GenerateChunk (i * 31) 0 32) [i..NumChunks - 1]"
proof (induction "Some g" NumChunks i rule: stress_requests.induct)
  case (1 NumChunks i)
  show ?case
  proof (cases "i < NumChunks")
    case True
    then have u: "[i..NumChunks - 1] = i # [i + 1..NumChunks - 1]"
      by (simp add: upto_rec1)
    show ?thesis
      using 1[OF True] True
      by (subst stress_requests.simps) (simp add: u RequestChunkGeneration_def)
  next
    case False
    then show ?thesis by (subst stress_requests.simps) simp
  qed
qed

lemma stress_progress_last:
  "bStressTestInProgress s \<Longrightarrow> PendingChunks s = 1 \<Longrightarrow>
   snd (stress_progress now s) =
     [LogTotalTime ((now - StressTestStartTime s) * 1000), LogAverageTimePerChunk None]"
  by (simp add: stress_progress_def Let_def double_div_def)

text \<open>
  C7. The stress test with argument 3, started when the clock reads 10 seconds, issues
  the three requests at the origins \<open>(0, 0)\<close>, \<open>(31, 0)\<close> and \<open>(62, 0)\<close>. When the
  third completion notification arrives, at 13 seconds, the manager logs the total of
  3000 milliseconds, and as the average the total divided by \<open>PendingChunks\<close>, which
  has been counted down to 0 by then: the division has no finite result, where the
  average per chunk is 1000 milliseconds.
\<close>

theorem StressTest_average_divides_by_zero:
  "snd (StressTest (Some example_generator) 10 3 example_manager) =
     [GenerateChunk 0 0 32, GenerateChunk 31 0 32, GenerateChunk 62 0 32] \<and>
   snd (notifications (Some example_generator) [(11, 100), (12, 101), (13, 102)]
          (fst (StressTest (Some example_generator) 10 3 example_manager))) =
     [DisplayChunk 100, DisplayChunk 101,
      LogTotalTime 3000, LogAverageTimePerChunk None, DisplayChunk 102]"
proof -
  have a: "snd (StressTest (Some example_generator) 10 3 example_manager) =
     [GenerateChunk 0 0 32, GenerateChunk 31 0 32, GenerateChunk 62 0 32]"
    by (simp add: StressTest_def stress_requests.simps RequestChunkGeneration_def)
  have b: "snd (notifications (Some example_generator) [(11, 100), (12, 101), (13, 102)]
          (fst (StressTest (Some example_generator) 10 3 example_manager))) =
     [DisplayChunk 100, DisplayChunk 101,
      LogTotalTime 3000, LogAverageTimePerChunk None, DisplayChunk 102]"
    by (simp add: StressTest_def example_manager_def OnChunkGenerated_def initial_progress_def
        stress_progress_def double_div_def Let_def)
  show ?thesis using a b by blast
qed

end
